theory Spec2Isabelle
  imports Complex_Main "HOL-Library.AList"
begin

section \<open>Python strings\<close>

text \<open>
  Strings are lists of characters with code points below 256. The functions below are the string methods
  that \<^verbatim>\<open>exbench_module.py\<close> calls: \<^verbatim>\<open>sub in s\<close>, \<^verbatim>\<open>s.split(sep)\<close>,
  \<^verbatim>\<open>sep.join(parts)\<close>, \<^verbatim>\<open>s.replace(old, new)\<close> and \<^verbatim>\<open>s.strip()\<close>.
\<close>

text \<open>Exceptions are values. \<open>Exception\<close> stands for any other instance of Python's
  \<^verbatim>\<open>Exception\<close> raised by an external collaborator; the string is what \<^verbatim>\<open>str(e)\<close> gives.\<close>

datatype py_exception =
    ValueError string
  | ZeroDivisionError string
  | Exception string

fun str_of_exception :: "py_exception \<Rightarrow> string" where
  "str_of_exception (ValueError msg) = msg"
| "str_of_exception (ZeroDivisionError msg) = msg"
| "str_of_exception (Exception msg) = msg"

definition starts_with :: "string \<Rightarrow> string \<Rightarrow> bool" where
  "starts_with s pre = (take (length pre) s = pre)"

text \<open>\<^verbatim>\<open>sub in s\<close>: the substring test.\<close>

fun contains :: "string \<Rightarrow> string \<Rightarrow> bool" where
  "contains sub [] = (sub = [])"
| "contains sub (c # cs) = (starts_with (c # cs) sub \<or> contains sub cs)"

text \<open>\<^verbatim>\<open>s.split(sep)\<close> for a non-empty separator: the leftmost occurrences, not
  overlapping. Python raises \<^verbatim>\<open>ValueError\<close> on an empty separator; the only separator
  the module uses is the one-character \<open>provider_delimiter\<close>, and on an empty separator
  the function below returns the string unsplit.\<close>

function py_split :: "string \<Rightarrow> string \<Rightarrow> string list" where
  "py_split sep [] = [[]]"
| "py_split sep (c # cs) =
     (if sep \<noteq> [] \<and> starts_with (c # cs) sep
      then [] # py_split sep (drop (length sep) (c # cs))
      else (case py_split sep cs of
              [] \<Rightarrow> [[c]]
            | p # ps \<Rightarrow> (c # p) # ps))"
  by pat_completeness auto
termination
  by (relation "measure (\<lambda>(sep, s). length s)") auto

text \<open>\<^verbatim>\<open>sep.join(parts)\<close>.\<close>

fun py_join :: "string \<Rightarrow> string list \<Rightarrow> string" where
  "py_join sep [] = []"
| "py_join sep [p] = p"
| "py_join sep (p # q # ps) = p @ sep @ py_join sep (q # ps)"

text \<open>\<^verbatim>\<open>s.replace(old, new)\<close>: every occurrence of \<open>old\<close>, leftmost first, not
  overlapping. With an empty \<open>old\<close> Python puts \<open>new\<close> before every character and at the
  end.\<close>

function replace_nonempty :: "string \<Rightarrow> string \<Rightarrow> string \<Rightarrow> string" where
  "replace_nonempty old new [] = []"
| "replace_nonempty old new (c # cs) =
     (if old \<noteq> [] \<and> starts_with (c # cs) old
      then new @ replace_nonempty old new (drop (length old) (c # cs))
      else c # replace_nonempty old new cs)"
  by pat_completeness auto
termination
  by (relation "measure (\<lambda>(old, new, s). length s)") auto

definition py_replace :: "string \<Rightarrow> string \<Rightarrow> string \<Rightarrow> string" where
  "py_replace s old new =
     (if old = [] then new @ concat (map (\<lambda>c. c # new) s)
      else replace_nonempty old new s)"

text \<open>\<^verbatim>\<open>s.strip()\<close> removes the characters of \<^verbatim>\<open>str.isspace\<close> at both ends: among the
  code points below 256 these are the space, U+0009 to U+000D, U+001C to U+001F,
  U+0085 and U+00A0.\<close>

definition is_space :: "char \<Rightarrow> bool" where
  "is_space c = (c \<in> set [CHR '' '', CHR 0x09, CHR 0x0A, CHR 0x0B, CHR 0x0C, CHR 0x0D,
                           CHR 0x1C, CHR 0x1D, CHR 0x1E, CHR 0x1F, CHR 0x85, CHR 0xA0])"

definition py_strip :: "string \<Rightarrow> string" where
  "py_strip s = rev (dropWhile is_space (rev (dropWhile is_space s)))"

section \<open>Model identifier parser\<close>

definition provider_delimiter :: string where
  "provider_delimiter = ''~''"

definition supported_providers :: "string list" where
  "supported_providers = [''ollama'', ''anthropic'', ''deepseek'', ''openai'', ''gemini'']"

text \<open>\<^verbatim>\<open>parse_model_string\<close>. The starred assignment
  \<^verbatim>\<open>provider, *model_parts = model.split(provider_delimiter)\<close> raises \<^verbatim>\<open>ValueError\<close> on an
  empty list.\<close>

definition parse_model_string :: "string \<Rightarrow> py_exception + (string \<times> string)" where
  "parse_model_string model_str =
     (if \<not> contains provider_delimiter model_str then Inr (''ollama'', model_str)
      else (case py_split provider_delimiter model_str of
              [] \<Rightarrow> Inl (ValueError ''not enough values to unpack (expected at least 1, got 0)'')
            | prov # model_parts \<Rightarrow>
                (let model_name = py_join provider_delimiter model_parts in
                 if prov \<notin> set supported_providers
                 then Inl (ValueError (''Unsupported provider: '' @ prov @ ''. '' @
                        ''Supported providers are: '' @ py_join '', '' supported_providers))
                 else Inr (prov, model_name))))"

section \<open>Data model\<close>

text \<open>
  The classes of \<^verbatim>\<open>modules.data_types\<close>, with the fields that
  \<^verbatim>\<open>exbench_module.py\<close> reads and writes. Python floats are modelled as rationals:
  sums and quotients are exact. Field names that two classes share carry a prefix in
  the later record.
\<close>

text \<open>Modelled from the spec: the enumeration \<^verbatim>\<open>ExeEvalType\<close> of
  \<^verbatim>\<open>modules.data_types\<close> is not part of the sources. The spec names three evaluator
  kinds (numeric-output, string-output, raw-string), which are the three members the
  module compares with; \<open>other_evaluator\<close> is any other kind, with the text that
  formatting it gives.\<close>

datatype ExeEvalType =
    execute_python_code_with_num_output
  | execute_python_code_with_string_output
  | raw_string_evaluator
  | other_evaluator string

record BenchPromptResponse =
  response :: string
  tokens_per_second :: rat
  provider :: string
  total_duration_ms :: rat
  load_duration_ms :: rat
  errored :: bool

text \<open>A prompt row: \<open>dynamic_variables\<close> is an optional dictionary, in insertion
  order, whose values are already in text form (\<^verbatim>\<open>str(value)\<close>); \<open>expectation\<close> is the
  text form of the expected scalar.\<close>

record PromptRow =
  dynamic_variables :: "(string \<times> string) list option"
  expectation :: string

record ExecEvalBenchmarkFile =
  benchmark_name :: string
  purpose :: string
  base_prompt :: string
  evaluator :: ExeEvalType
  prompts :: "PromptRow list"

record ExeEvalBenchmarkOutputResult =
  input_prompt :: string
  prompt_response :: BenchPromptResponse
  execution_result :: string
  expected_result :: string
  model :: string
  correct :: bool
  index :: int

text \<open>
  The external collaborators: the five completion capabilities
  (\<^verbatim>\<open>ollama_llm.bench_prompt\<close>, \<^verbatim>\<open>anthropic_llm.bench_prompt\<close>, ...), the code extractor
  \<^verbatim>\<open>utils.parse_markdown_backticks\<close>, the code executor \<^verbatim>\<open>execute_python_code\<close> and the
  comparison \<^verbatim>\<open>eval_result_compare\<close>. Each is a call that returns a value or raises.
  They are not functions of their arguments alone (a server may be down for one call
  and up for the next), so the runner is given the collaborators as they behave during
  each iteration of its loop: a function from the 1-based iteration number.
\<close>

record capabilities =
  ollama_bench_prompt :: "string \<Rightarrow> string \<Rightarrow> py_exception + BenchPromptResponse"
  anthropic_bench_prompt :: "string \<Rightarrow> string \<Rightarrow> py_exception + BenchPromptResponse"
  deepseek_bench_prompt :: "string \<Rightarrow> string \<Rightarrow> py_exception + BenchPromptResponse"
  openai_bench_prompt :: "string \<Rightarrow> string \<Rightarrow> py_exception + BenchPromptResponse"
  gemini_bench_prompt :: "string \<Rightarrow> string \<Rightarrow> py_exception + BenchPromptResponse"
  parse_markdown_backticks :: "string \<Rightarrow> py_exception + string"
  execute_python_code :: "string \<Rightarrow> py_exception + string"
  eval_result_compare :: "ExeEvalType \<Rightarrow> string \<Rightarrow> string \<Rightarrow> py_exception + bool"

type_synonym world = "int \<Rightarrow> capabilities"

section \<open>Benchmark runner\<close>

text \<open>The marker \<^verbatim>\<open>f"{{{{{key}}}}}"\<close>: two opening braces, the key, two closing braces.\<close>

definition marker :: "string \<Rightarrow> string" where
  "marker key = ''{{'' @ key @ ''}}''"

text \<open>Lines 103-106: the loop over \<^verbatim>\<open>dynamic_variables.items()\<close>, one replacement of
  the whole intermediate prompt per key.\<close>

fun substitute_variables :: "string \<Rightarrow> (string \<times> string) list \<Rightarrow> string" where
  "substitute_variables prompt [] = prompt"
| "substitute_variables prompt ((key, val) # items) =
     substitute_variables (py_replace prompt (marker key) val) items"

definition render_prompt :: "string \<Rightarrow> (string \<times> string) list option \<Rightarrow> string" where
  "render_prompt base dv =
     (case dv of
        None \<Rightarrow> base
      | Some items \<Rightarrow> (if items = [] then base else substitute_variables base items))"

text \<open>Lines 109-137: the dispatch on the provider tag. Only the call of the ollama
  capability stands in a \<^verbatim>\<open>try\<close>.\<close>

definition bench_response_for_provider ::
  "capabilities \<Rightarrow> string \<Rightarrow> string \<Rightarrow> string \<Rightarrow> py_exception + BenchPromptResponse" where
  "bench_response_for_provider caps prov prompt model_name =
     (if prov = ''ollama'' then
        (case ollama_bench_prompt caps prompt model_name of
           Inr bench_response \<Rightarrow> Inr bench_response
         | Inl e \<Rightarrow> Inr \<lparr> response = ''Error: '' @ str_of_exception e,
                          tokens_per_second = 0,
                          provider = ''ollama'',
                          total_duration_ms = 0,
                          load_duration_ms = 0,
                          errored = True \<rparr>)
      else if prov = ''anthropic'' then anthropic_bench_prompt caps prompt model_name
      else if prov = ''deepseek'' then deepseek_bench_prompt caps prompt model_name
      else if prov = ''openai'' then openai_bench_prompt caps prompt model_name
      else if prov = ''gemini'' then gemini_bench_prompt caps prompt model_name
      else Inl (ValueError (''Unsupported model provider: '' @ prov @ ''. '' @
                  ''Supported providers are: ollama, anthropic, deepseek, openai'')))"

text \<open>Lines 145-168: the body of the \<^verbatim>\<open>try\<close>. It gives the execution result and the
  verdict, or the exception that leaves the body.\<close>

definition evaluate_try ::
  "capabilities \<Rightarrow> ExeEvalType \<Rightarrow> string \<Rightarrow> string \<Rightarrow> py_exception + (string \<times> bool)" where
  "evaluate_try caps ev cleaned_code expected =
     (case ev of
        execute_python_code_with_num_output \<Rightarrow>
          (case execute_python_code caps cleaned_code of
             Inl e \<Rightarrow> Inl e
           | Inr exec_result \<Rightarrow>
               (case eval_result_compare caps ev expected (py_strip exec_result) of
                  Inl e \<Rightarrow> Inl e
                | Inr c \<Rightarrow> Inr (exec_result, c)))
      | execute_python_code_with_string_output \<Rightarrow>
          (case execute_python_code caps cleaned_code of
             Inl e \<Rightarrow> Inl e
           | Inr exec_result \<Rightarrow>
               (case eval_result_compare caps ev expected exec_result of
                  Inl e \<Rightarrow> Inl e
                | Inr c \<Rightarrow> Inr (exec_result, c)))
      | raw_string_evaluator \<Rightarrow>
          (case eval_result_compare caps ev expected cleaned_code of
             Inl e \<Rightarrow> Inl e
           | Inr c \<Rightarrow> Inr (cleaned_code, c))
      | other_evaluator txt \<Rightarrow> Inl (ValueError (''Unsupported evaluator: '' @ txt)))"

text \<open>Lines 144-172: the \<^verbatim>\<open>try\<close> with its \<^verbatim>\<open>except Exception\<close>.\<close>

definition evaluate_response ::
  "capabilities \<Rightarrow> ExeEvalType \<Rightarrow> string \<Rightarrow> string \<Rightarrow> string \<times> bool" where
  "evaluate_response caps ev cleaned_code expected =
     (case evaluate_try caps ev cleaned_code expected of
        Inr res \<Rightarrow> res
      | Inl e \<Rightarrow> (str_of_exception e, False))"

text \<open>Lines 100-185: one iteration of the loop, for the row at position \<open>i\<close>. The
  extractor is called at line 140, before the \<^verbatim>\<open>try\<close>.\<close>

definition run_prompt ::
  "capabilities \<Rightarrow> string \<Rightarrow> string \<Rightarrow> string \<Rightarrow> ExecEvalBenchmarkFile \<Rightarrow> int \<Rightarrow> PromptRow
     \<Rightarrow> py_exception + ExeEvalBenchmarkOutputResult" where
  "run_prompt caps model_str prov model_name bf i prompt_row =
     (let prompt = render_prompt (base_prompt bf) (dynamic_variables prompt_row) in
      case bench_response_for_provider caps prov prompt model_name of
        Inl e \<Rightarrow> Inl e
      | Inr bench_response \<Rightarrow>
          (case parse_markdown_backticks caps (response bench_response) of
             Inl e \<Rightarrow> Inl e
           | Inr cleaned_code \<Rightarrow>
               (let expected = py_strip (expectation prompt_row);
                    (exec_result, c) = evaluate_response caps (evaluator bf) cleaned_code expected
                in Inr \<lparr> input_prompt = prompt,
                         prompt_response = bench_response,
                         execution_result = exec_result,
                         expected_result = expected,
                         model = model_str,
                         correct = c,
                         index = i \<rparr>)))"

text \<open>The loop \<^verbatim>\<open>for i, prompt_row in enumerate(benchmark_file.prompts, 1)\<close>, with the
  list \<^verbatim>\<open>results\<close> as accumulator. An exception that leaves an iteration leaves the
  loop.\<close>

fun run_prompts ::
  "world \<Rightarrow> string \<Rightarrow> string \<Rightarrow> string \<Rightarrow> ExecEvalBenchmarkFile \<Rightarrow> int \<Rightarrow> PromptRow list
     \<Rightarrow> ExeEvalBenchmarkOutputResult list \<Rightarrow> py_exception + ExeEvalBenchmarkOutputResult list" where
  "run_prompts w model_str prov model_name bf i [] acc = Inr acc"
| "run_prompts w model_str prov model_name bf i (prompt_row # rows) acc =
     (case run_prompt (w i) model_str prov model_name bf i prompt_row of
        Inl e \<Rightarrow> Inl e
      | Inr r \<Rightarrow> run_prompts w model_str prov model_name bf (i + 1) rows (acc @ [r]))"

definition run_benchmark_for_model ::
  "world \<Rightarrow> string \<Rightarrow> ExecEvalBenchmarkFile
     \<Rightarrow> py_exception + ExeEvalBenchmarkOutputResult list" where
  "run_benchmark_for_model w model_str bf =
     (case parse_model_string model_str of
        Inl e \<Rightarrow> Inl e
      | Inr (prov, model_name) \<Rightarrow> run_prompts w model_str prov model_name bf 1 (prompts bf) [])"

section \<open>Report generator\<close>

record ExecEvalBenchmarkCompleteResult =
  benchmark_file :: ExecEvalBenchmarkFile
  results :: "ExeEvalBenchmarkOutputResult list"

record ExecEvalBenchmarkModelReport =
  report_model :: string
  report_results :: "ExeEvalBenchmarkOutputResult list"
  correct_count :: int
  incorrect_count :: int
  accuracy :: rat
  average_tokens_per_second :: rat
  average_total_duration_ms :: rat
  average_load_duration_ms :: rat

record ExecEvalBenchmarkReport =
  report_benchmark_name :: string
  report_purpose :: string
  models :: "ExecEvalBenchmarkModelReport list"
  overall_correct_count :: int
  overall_incorrect_count :: int
  overall_accuracy :: rat
  overall_average_tokens_per_second :: rat
  overall_average_total_duration_ms :: rat
  overall_average_load_duration_ms :: rat

text \<open>Python's \<^verbatim>\<open>/\<close>: a zero divisor raises.\<close>

definition py_truediv :: "rat \<Rightarrow> rat \<Rightarrow> py_exception + rat" where
  "py_truediv a b = (if b = 0 then Inl (ZeroDivisionError ''division by zero'') else Inr (a / b))"

text \<open>The dictionary \<^verbatim>\<open>model_results\<close> keeps its keys in insertion order: an
  association list, where \<open>AList.update\<close> overwrites a key in place and puts a new key
  at the end. One iteration of the grouping loop: a model that is not yet a key gets the
  empty list, then the result is appended to the model's list.\<close>

definition group_result ::
  "(string \<times> ExeEvalBenchmarkOutputResult list) list \<Rightarrow> ExeEvalBenchmarkOutputResult
     \<Rightarrow> (string \<times> ExeEvalBenchmarkOutputResult list) list" where
  "group_result d r =
     (case map_of d (model r) of
        None \<Rightarrow> AList.update (model r) ([] @ [r]) d
      | Some rs \<Rightarrow> AList.update (model r) (rs @ [r]) d)"

fun group_results ::
  "(string \<times> ExeEvalBenchmarkOutputResult list) list \<Rightarrow> ExeEvalBenchmarkOutputResult list
     \<Rightarrow> (string \<times> ExeEvalBenchmarkOutputResult list) list" where
  "group_results d [] = d"
| "group_results d (r # rs) = group_results (group_result d r) rs"

text \<open>The body of the loop over \<^verbatim>\<open>model_results.items()\<close>: the report of one model.
  The names \<^verbatim>\<open>avg_tokens_per_second\<close>, \<^verbatim>\<open>avg_total_duration\<close> and
  \<^verbatim>\<open>avg_load_duration\<close> are assigned here and again after the loop; the values of the
  loop are read only by the constructor call of the same iteration.\<close>

definition model_report ::
  "string \<Rightarrow> ExeEvalBenchmarkOutputResult list \<Rightarrow> py_exception + ExecEvalBenchmarkModelReport" where
  "model_report m rs =
     (let count = sum_list (map (\<lambda>r. 1) (filter correct rs));
          incorrect = int (length rs) - count
      in case py_truediv (of_int count) (of_nat (length rs)) of
           Inl e \<Rightarrow> Inl e
         | Inr acc \<Rightarrow>
      (case py_truediv (sum_list (map (\<lambda>r. tokens_per_second (prompt_response r)) rs))
                       (of_nat (length rs)) of
           Inl e \<Rightarrow> Inl e
         | Inr tps \<Rightarrow>
      (case py_truediv (sum_list (map (\<lambda>r. total_duration_ms (prompt_response r)) rs))
                       (of_nat (length rs)) of
           Inl e \<Rightarrow> Inl e
         | Inr total_dur \<Rightarrow>
      (case py_truediv (sum_list (map (\<lambda>r. load_duration_ms (prompt_response r)) rs))
                       (of_nat (length rs)) of
           Inl e \<Rightarrow> Inl e
         | Inr load_dur \<Rightarrow>
             Inr \<lparr> report_model = m,
                   report_results = rs,
                   correct_count = count,
                   incorrect_count = incorrect,
                   accuracy = acc,
                   average_tokens_per_second = tps,
                   average_total_duration_ms = total_dur,
                   average_load_duration_ms = load_dur \<rparr>))))"

fun create_model_reports ::
  "(string \<times> ExeEvalBenchmarkOutputResult list) list \<Rightarrow> ExecEvalBenchmarkModelReport list
     \<Rightarrow> py_exception + ExecEvalBenchmarkModelReport list" where
  "create_model_reports [] acc = Inr acc"
| "create_model_reports ((m, rs) # items) acc =
     (case model_report m rs of
        Inl e \<Rightarrow> Inl e
      | Inr rep \<Rightarrow> create_model_reports items (acc @ [rep]))"

text \<open>The local variables of \<^verbatim>\<open>generate_report\<close> that outlive a statement.\<close>

record report_locals =
  model_reports :: "ExecEvalBenchmarkModelReport list"
  model_results :: "(string \<times> ExeEvalBenchmarkOutputResult list) list"
  overall_correct :: int
  overall_incorrect :: int
  overall_acc :: rat
  avg_tokens_per_second :: rat
  avg_total_duration :: rat
  avg_load_duration :: rat

text \<open>One aggregation pass over the local variables. Lines 193-244 and lines 254-305
  are the same text, so both passes are this function.\<close>

definition aggregation_pass ::
  "ExecEvalBenchmarkCompleteResult \<Rightarrow> report_locals \<Rightarrow> py_exception + report_locals" where
  "aggregation_pass cr l0 =
     (let l1 = l0\<lparr>model_reports := []\<rparr>;
          l2 = l1\<lparr>model_results := []\<rparr>;
          l3 = l2\<lparr>model_results := group_results (model_results l2) (results cr)\<rparr>
      in case create_model_reports (model_results l3) (model_reports l3) of
           Inl e \<Rightarrow> Inl e
         | Inr reps \<Rightarrow>
      (let l4 = l3\<lparr>model_reports := reps\<rparr>;
           l5 = l4\<lparr>overall_correct := sum_list (map correct_count (model_reports l4))\<rparr>;
           l6 = l5\<lparr>overall_incorrect := sum_list (map incorrect_count (model_reports l5))\<rparr>
       in case py_truediv (of_int (overall_correct l6))
                          (of_int (overall_correct l6 + overall_incorrect l6)) of
            Inl e \<Rightarrow> Inl e
          | Inr acc \<Rightarrow>
      (let l7 = l6\<lparr>overall_acc := acc\<rparr>
       in case py_truediv (sum_list (map average_tokens_per_second (model_reports l7)))
                          (of_nat (length (model_reports l7))) of
            Inl e \<Rightarrow> Inl e
          | Inr tps \<Rightarrow>
      (let l8 = l7\<lparr>avg_tokens_per_second := tps\<rparr>
       in case py_truediv (sum_list (map average_total_duration_ms (model_reports l8)))
                          (of_nat (length (model_reports l8))) of
            Inl e \<Rightarrow> Inl e
          | Inr total_dur \<Rightarrow>
      (let l9 = l8\<lparr>avg_total_duration := total_dur\<rparr>
       in case py_truediv (sum_list (map average_load_duration_ms (model_reports l9)))
                          (of_nat (length (model_reports l9))) of
            Inl e \<Rightarrow> Inl e
          | Inr load_dur \<Rightarrow> Inr (l9\<lparr>avg_load_duration := load_dur\<rparr>))))))"

text \<open>Lines 307-317: the report built from the local variables.\<close>

definition build_report ::
  "ExecEvalBenchmarkCompleteResult \<Rightarrow> report_locals \<Rightarrow> ExecEvalBenchmarkReport" where
  "build_report cr l =
     \<lparr> report_benchmark_name = benchmark_name (benchmark_file cr),
       report_purpose = purpose (benchmark_file cr),
       models = model_reports l,
       overall_correct_count = overall_correct l,
       overall_incorrect_count = overall_incorrect l,
       overall_accuracy = overall_acc l,
       overall_average_tokens_per_second = avg_tokens_per_second l,
       overall_average_total_duration_ms = avg_total_duration l,
       overall_average_load_duration_ms = avg_load_duration l \<rparr>"

text \<open>No local variable is assigned when the function starts; no statement reads one
  before assigning it, and the record below stands for that state.\<close>

definition unassigned :: report_locals where
  "unassigned = \<lparr> model_reports = [], model_results = [], overall_correct = 0,
                   overall_incorrect = 0, overall_acc = 0, avg_tokens_per_second = 0,
                   avg_total_duration = 0, avg_load_duration = 0 \<rparr>"

text \<open>\<^verbatim>\<open>generate_report\<close>: the first pass, the second pass, the return statement.\<close>

definition generate_report ::
  "ExecEvalBenchmarkCompleteResult \<Rightarrow> py_exception + ExecEvalBenchmarkReport" where
  "generate_report cr =
     (case aggregation_pass cr unassigned of
        Inl e \<Rightarrow> Inl e
      | Inr l1 \<Rightarrow>
          (case aggregation_pass cr l1 of
             Inl e \<Rightarrow> Inl e
           | Inr l2 \<Rightarrow> Inr (build_report cr l2)))"

text \<open>The report generator with a single aggregation pass, as the design notes of the
  specification ask for: the first pass removed.\<close>

definition generate_report_single_pass ::
  "ExecEvalBenchmarkCompleteResult \<Rightarrow> py_exception + ExecEvalBenchmarkReport" where
  "generate_report_single_pass cr =
     (case aggregation_pass cr unassigned of
        Inl e \<Rightarrow> Inl e
      | Inr l \<Rightarrow> Inr (build_report cr l))"

section \<open>Reference definitions and sample inputs\<close>

text \<open>Simultaneous substitution in a single pass, for comparison with
  \<open>substitute_variables\<close>: the template is read once from left to right; where the
  marker of a key starts, the value of the key is written and the marker is skipped; the
  text written is not read again.\<close>

fun find_marker :: "(string \<times> string) list \<Rightarrow> string \<Rightarrow> (string \<times> string) option" where
  "find_marker [] s = None"
| "find_marker ((key, val) # items) s =
     (if starts_with s (marker key) then Some (key, val) else find_marker items s)"

function simultaneous_substitute :: "(string \<times> string) list \<Rightarrow> string \<Rightarrow> string" where
  "simultaneous_substitute items [] = []"
| "simultaneous_substitute items (c # cs) =
     (case find_marker items (c # cs) of
        None \<Rightarrow> c # simultaneous_substitute items cs
      | Some (key, val) \<Rightarrow>
          val @ simultaneous_substitute items (drop (length (marker key)) (c # cs)))"
  by pat_completeness auto
termination
  by (relation "measure (\<lambda>(items, s). length s)") (auto simp: marker_def)

text \<open>Collaborators that answer every call: each completion capability returns
  \<open>sample_response\<close>, the extractor and the code executor return their argument, the
  comparison is equality of the two texts.\<close>

definition sample_response :: BenchPromptResponse where
  "sample_response = \<lparr> response = ''4'', tokens_per_second = 10, provider = ''sample'',
                        total_duration_ms = 100, load_duration_ms = 5, errored = False \<rparr>"

definition healthy :: capabilities where
  "healthy = \<lparr> ollama_bench_prompt = (\<lambda>prompt model_name. Inr sample_response),
               anthropic_bench_prompt = (\<lambda>prompt model_name. Inr sample_response),
               deepseek_bench_prompt = (\<lambda>prompt model_name. Inr sample_response),
               openai_bench_prompt = (\<lambda>prompt model_name. Inr sample_response),
               gemini_bench_prompt = (\<lambda>prompt model_name. Inr sample_response),
               parse_markdown_backticks = (\<lambda>txt. Inr txt),
               execute_python_code = (\<lambda>code. Inr code),
               eval_result_compare = (\<lambda>ev expected actual. Inr (expected = actual)) \<rparr>"

text \<open>Collaborators of which one raises: the completion capabilities (no server
  answers), the code extractor, the code executor, the comparison.\<close>

definition offline :: capabilities where
  "offline = healthy \<lparr> ollama_bench_prompt := (\<lambda>prompt model_name. Inl (Exception ''connection refused'')),
                       anthropic_bench_prompt := (\<lambda>prompt model_name. Inl (Exception ''connection refused'')),
                       deepseek_bench_prompt := (\<lambda>prompt model_name. Inl (Exception ''connection refused'')),
                       openai_bench_prompt := (\<lambda>prompt model_name. Inl (Exception ''connection refused'')),
                       gemini_bench_prompt := (\<lambda>prompt model_name. Inl (Exception ''connection refused'')) \<rparr>"

definition broken_extractor :: capabilities where
  "broken_extractor = healthy \<lparr> parse_markdown_backticks := (\<lambda>txt. Inl (Exception ''extraction failed'')) \<rparr>"

definition broken_executor :: capabilities where
  "broken_executor = healthy \<lparr> execute_python_code := (\<lambda>code. Inl (Exception ''invalid syntax'')) \<rparr>"

definition broken_comparison :: capabilities where
  "broken_comparison = healthy \<lparr> eval_result_compare :=
     (\<lambda>ev expected actual. Inl (Exception ''comparison failed'')) \<rparr>"

text \<open>No completion server answers and the code extractor raises.\<close>

definition offline_broken_extractor :: capabilities where
  "offline_broken_extractor =
     offline \<lparr> parse_markdown_backticks := (\<lambda>txt. Inl (Exception ''extraction failed'')) \<rparr>"

text \<open>A world whose extractor raises during the second iteration only.\<close>

definition extractor_fails_at_2 :: world where
  "extractor_fails_at_2 i = (if i = 2 then broken_extractor else healthy)"

text \<open>Benchmark files with one and with two prompt rows.\<close>

definition one_row_file :: ExecEvalBenchmarkFile where
  "one_row_file = \<lparr> benchmark_name = ''sums'', purpose = ''addition'',
                     base_prompt = ''2+2'',
                     evaluator = raw_string_evaluator,
                     prompts = [\<lparr> dynamic_variables = None, expectation = ''4'' \<rparr>] \<rparr>"

definition two_row_file :: ExecEvalBenchmarkFile where
  "two_row_file = \<lparr> benchmark_name = ''sums'', purpose = ''addition'',
                     base_prompt = ''{{x}}+2'',
                     evaluator = raw_string_evaluator,
                     prompts = [\<lparr> dynamic_variables = Some [(''x'', ''2'')], expectation = ''4'' \<rparr>,
                                \<lparr> dynamic_variables = Some [(''x'', ''3'')], expectation = ''5'' \<rparr>] \<rparr>"

text \<open>An output result of a model, correct or not, at an index.\<close>

definition sample_result :: "string \<Rightarrow> bool \<Rightarrow> int \<Rightarrow> ExeEvalBenchmarkOutputResult" where
  "sample_result m c i = \<lparr> input_prompt = ''2+2'', prompt_response = sample_response,
                           execution_result = ''4'', expected_result = ''4'',
                           model = m, correct = c, index = i \<rparr>"

text \<open>Model A with three of four results correct, model B with two of two.\<close>

definition two_model_result :: ExecEvalBenchmarkCompleteResult where
  "two_model_result =
     \<lparr> benchmark_file = one_row_file,
       results = [sample_result ''A'' True 1, sample_result ''A'' True 2,
                  sample_result ''A'' True 3, sample_result ''A'' False 4,
                  sample_result ''B'' True 1, sample_result ''B'' True 2] \<rparr>"

definition no_results :: ExecEvalBenchmarkCompleteResult where
  "no_results = \<lparr> benchmark_file = one_row_file, results = [] \<rparr>"

section \<open>Properties of the model identifier parser\<close>

lemma py_split_not_Nil: "py_split sep s \<noteq> []"
  by (induction sep s rule: py_split.induct) (auto split: list.splits)

lemma py_join_Cons_Cons: "py_join sep ((c # p) # ps) = c # py_join sep (p # ps)"
  by (cases ps) auto

lemma py_join_Nil_Cons: "ps \<noteq> [] \<Longrightarrow> py_join sep (p # ps) = p @ sep @ py_join sep ps"
  by (cases ps) auto

lemma py_join_py_split: "py_join sep (py_split sep s) = s"
proof (induction sep s rule: py_split.induct)
  case (1 sep)
  show ?case by simp
next
  case (2 sep c cs)
  show ?case
  proof (cases "sep \<noteq> [] \<and> starts_with (c # cs) sep")
    case True
    then have "sep @ drop (length sep) (c # cs) = c # cs"
      unfolding starts_with_def by (metis append_take_drop_id)
    with True 2(1) show ?thesis
      by (simp add: py_join_Nil_Cons py_split_not_Nil)
  next
    case False
    obtain p ps where sp: "py_split sep cs = p # ps"
      using py_split_not_Nil by (cases "py_split sep cs") auto
    with False 2(2) show ?thesis
      by (auto simp: py_join_Cons_Cons)
  qed
qed

lemma contains_split_length: "sep \<noteq> [] \<Longrightarrow> contains sep s \<Longrightarrow> 2 \<le> length (py_split sep s)"
proof (induction sep s rule: py_split.induct)
  case (1 sep)
  then show ?case by simp
next
  case (2 sep c cs)
  show ?case
  proof (cases "starts_with (c # cs) sep")
    case True
    with 2(3) show ?thesis
      using py_split_not_Nil[of sep "drop (length sep) (c # cs)"]
      by (cases "py_split sep (drop (length sep) (c # cs))") auto
  next
    case False
    with 2 have "2 \<le> length (py_split sep cs)" by simp
    with False show ?thesis by (auto split: list.splits)
  qed
qed

lemma contains_delimiter: "contains provider_delimiter s \<longleftrightarrow> CHR ''~'' \<in> set s"
  by (induction s) (auto simp: provider_delimiter_def starts_with_def)

lemma hd_split_delimiter:
  "hd (py_split provider_delimiter s) = takeWhile (\<lambda>c. c \<noteq> CHR ''~'') s"
  by (induction s) (auto simp: provider_delimiter_def starts_with_def py_split_not_Nil split: list.splits)

lemma parse_model_string_split:
  assumes "contains provider_delimiter s"
  obtains prov q ps where "py_split provider_delimiter s = prov # q # ps"
    and "prov @ provider_delimiter @ py_join provider_delimiter (q # ps) = s"
proof -
  have "2 \<le> length (py_split provider_delimiter s)"
    using assms by (intro contains_split_length) (simp add: provider_delimiter_def)
  then obtain prov q ps where sp: "py_split provider_delimiter s = prov # q # ps"
    by (cases "py_split provider_delimiter s"; cases "tl (py_split provider_delimiter s)") auto
  have "py_join provider_delimiter (py_split provider_delimiter s) = s"
    by (rule py_join_py_split)
  with sp have "prov @ provider_delimiter @ py_join provider_delimiter (q # ps) = s" by simp
  with sp show thesis by (rule that)
qed

lemma parse_result_joins:
  assumes "contains provider_delimiter s" and "parse_model_string s = Inr (prov, name)"
  shows "prov @ provider_delimiter @ name = s \<and> prov = takeWhile (\<lambda>c. c \<noteq> CHR ''~'') s
     \<and> prov \<in> set supported_providers"
proof -
  obtain p q ps where sp: "py_split provider_delimiter s = p # q # ps"
    and j: "p @ provider_delimiter @ py_join provider_delimiter (q # ps) = s"
    using assms(1) by (rule parse_model_string_split)
  from assms sp have "prov = p" "name = py_join provider_delimiter (q # ps)" "prov \<in> set supported_providers"
    by (auto simp: parse_model_string_def Let_def split: if_splits)
  moreover have "p = takeWhile (\<lambda>c. c \<noteq> CHR ''~'') s"
    using hd_split_delimiter[of s] sp by simp
  ultimately show ?thesis using j by simp
qed

lemma parse_model_string_supported:
  assumes "contains provider_delimiter s" and "takeWhile (\<lambda>c. c \<noteq> CHR ''~'') s \<in> set supported_providers"
  shows "\<exists>name. parse_model_string s = Inr (takeWhile (\<lambda>c. c \<noteq> CHR ''~'') s, name)"
proof -
  obtain p q ps where sp: "py_split provider_delimiter s = p # q # ps"
    and j: "p @ provider_delimiter @ py_join provider_delimiter (q # ps) = s"
    using assms(1) by (rule parse_model_string_split)
  have "p = takeWhile (\<lambda>c. c \<noteq> CHR ''~'') s"
    using hd_split_delimiter[of s] sp by simp
  with assms sp show ?thesis
    by (simp add: parse_model_string_def Let_def)
qed

text \<open>
  Claim C7. For every model string that contains the provider delimiter, where the text
  before the first delimiter is a supported provider and the remainder contains no
  further delimiter, \<open>parse_model_string\<close> returns the pair of that provider and that
  remainder, and provider, delimiter and name concatenated give the original string.
\<close>

theorem parse_model_string_round_trip:
  assumes "CHR ''~'' \<in> set model_str"
    and "takeWhile (\<lambda>c. c \<noteq> CHR ''~'') model_str \<in> set supported_providers"
    and "CHR ''~'' \<notin> set (tl (dropWhile (\<lambda>c. c \<noteq> CHR ''~'') model_str))"
  shows "\<exists>prov name. parse_model_string model_str = Inr (prov, name)
           \<and> prov = takeWhile (\<lambda>c. c \<noteq> CHR ''~'') model_str
           \<and> name = tl (dropWhile (\<lambda>c. c \<noteq> CHR ''~'') model_str)
           \<and> prov @ provider_delimiter @ name = model_str"
proof -
  let ?p = "takeWhile (\<lambda>c. c \<noteq> CHR ''~'') model_str"
  let ?rest = "dropWhile (\<lambda>c. c \<noteq> CHR ''~'') model_str"
  have c: "contains provider_delimiter model_str"
    using assms(1) by (simp add: contains_delimiter)
  obtain name where p: "parse_model_string model_str = Inr (?p, name)"
    using parse_model_string_supported[OF c assms(2)] by blast
  from parse_result_joins[OF c p]
  have r: "?p @ provider_delimiter @ name = model_str" by simp
  have "?p @ ?rest = model_str" by simp
  with r have "provider_delimiter @ name = ?rest"
    by (metis same_append_eq)
  then have "name = tl ?rest"
    by (metis provider_delimiter_def append_Cons append_Nil list.sel(3))
  with p r show ?thesis by simp
qed

theorem parse_model_string_round_trip_witness:
  "parse_model_string ''openai~gpt-4o'' = Inr (''openai'', ''gpt-4o'')
   \<and> ''openai'' @ provider_delimiter @ ''gpt-4o'' = ''openai~gpt-4o''"
  using parse_model_string_round_trip[of "''openai~gpt-4o''"]
  by (simp add: supported_providers_def provider_delimiter_def)

section \<open>Properties of the benchmark runner\<close>

lemma run_prompt_result:
  assumes "bench_response_for_provider caps prov (render_prompt (base_prompt bf) (dynamic_variables row)) name = Inr resp"
    and "parse_markdown_backticks caps (response resp) = Inr code"
  shows "run_prompt caps m prov name bf i row =
           Inr \<lparr> input_prompt = render_prompt (base_prompt bf) (dynamic_variables row),
                 prompt_response = resp,
                 execution_result = fst (evaluate_response caps (evaluator bf) code (py_strip (expectation row))),
                 expected_result = py_strip (expectation row),
                 model = m,
                 correct = snd (evaluate_response caps (evaluator bf) code (py_strip (expectation row))),
                 index = i \<rparr>"
  using assms by (simp add: run_prompt_def Let_def split: prod.splits)

lemma run_prompt_fields:
  assumes "run_prompt caps m prov name bf i row = Inr r"
  shows "index r = i \<and> model r = m
       \<and> input_prompt r = render_prompt (base_prompt bf) (dynamic_variables row)
       \<and> expected_result r = py_strip (expectation row)"
  using assms by (auto simp: run_prompt_def Let_def split: sum.splits prod.splits)

lemma upto_from: "[i..i + int (Suc n) - 1] = i # [i + 1..i + 1 + int n - 1]"
  by (simp add: upto_rec1)

lemma run_prompts_total:
  assumes "\<And>k row. \<exists>r. run_prompt (w k) m prov name bf k row = Inr r"
  shows "\<exists>new. run_prompts w m prov name bf i rows acc = Inr (acc @ new)
           \<and> length new = length rows
           \<and> map index new = [i..i + int (length rows) - 1]
           \<and> map input_prompt new = map (\<lambda>row. render_prompt (base_prompt bf) (dynamic_variables row)) rows
           \<and> map expected_result new = map (\<lambda>row. py_strip (expectation row)) rows
           \<and> map model new = map (\<lambda>row. m) rows"
proof (induction rows arbitrary: i acc)
  case Nil
  show ?case by simp
next
  case (Cons row rows)
  obtain r where r: "run_prompt (w i) m prov name bf i row = Inr r"
    using assms by blast
  have f: "index r = i" "model r = m"
    "input_prompt r = render_prompt (base_prompt bf) (dynamic_variables row)"
    "expected_result r = py_strip (expectation row)"
    using run_prompt_fields[OF r] by simp_all
  from Cons.IH[of "i + 1" "acc @ [r]"]
  obtain new where n1: "run_prompts w m prov name bf (i + 1) rows (acc @ [r]) = Inr ((acc @ [r]) @ new)"
    and n2: "length new = length rows"
    and n3: "map index new = [i + 1..i + 1 + int (length rows) - 1]"
    and n4: "map input_prompt new = map (\<lambda>row. render_prompt (base_prompt bf) (dynamic_variables row)) rows"
    and n5: "map expected_result new = map (\<lambda>row. py_strip (expectation row)) rows"
    and n6: "map model new = map (\<lambda>row. m) rows"
    by (elim exE conjE)
  have a: "run_prompts w m prov name bf i (row # rows) acc = Inr (acc @ (r # new))"
    using r n1 by simp
  have b: "length (r # new) = length (row # rows)"
    using n2 by simp
  have c: "map index (r # new) = [i..i + int (length (row # rows)) - 1]"
    using f(1) n3 upto_from[of i "length rows"] by simp
  have d: "map input_prompt (r # new) = map (\<lambda>row. render_prompt (base_prompt bf) (dynamic_variables row)) (row # rows)"
    using f(3) n4 by simp
  have e: "map expected_result (r # new) = map (\<lambda>row. py_strip (expectation row)) (row # rows)"
    using f(4) n5 by simp
  have g: "map model (r # new) = map (\<lambda>row. m) (row # rows)"
    using f(2) n6 by simp
  from a b c d e g show ?case by blast
qed


lemma run_prompts_all:
  assumes "run_prompts w m prov name bf i rows acc = Inr rs"
    and "\<And>k row r. run_prompt (w k) m prov name bf k row = Inr r \<Longrightarrow> P r"
    and "list_all P acc"
  shows "list_all P rs"
  using assms(1,3)
proof (induction rows arbitrary: i acc)
  case Nil
  then show ?case by simp
next
  case (Cons row rows)
  from Cons.prems(1) obtain r where r: "run_prompt (w i) m prov name bf i row = Inr r"
    and rest: "run_prompts w m prov name bf (i + 1) rows (acc @ [r]) = Inr rs"
    by (cases "run_prompt (w i) m prov name bf i row") simp_all
  have "P r" using r by (rule assms(2))
  with Cons.prems(2) have "list_all P (acc @ [r])" by simp
  with rest show ?case by (rule Cons.IH)
qed


lemma run_prompt_total:
  assumes "prov = ''ollama'' \<or> (\<exists>resp. bench_response_for_provider caps prov prompt name = Inr resp)"
  shows "\<exists>resp. bench_response_for_provider caps prov prompt name = Inr resp"
proof (cases "prov = ''ollama''")
  case True
  then show ?thesis
    by (cases "ollama_bench_prompt caps prompt name") (simp_all add: bench_response_for_provider_def)
next
  case False
  with assms show ?thesis by simp
qed

lemma run_prompt_succeeds:
  assumes "prov = ''ollama'' \<or> (\<forall>prompt. \<exists>resp. bench_response_for_provider caps prov prompt name = Inr resp)"
    and "\<forall>txt. \<exists>code. parse_markdown_backticks caps txt = Inr code"
  shows "\<exists>r. run_prompt caps m prov name bf k row = Inr r"
proof -
  let ?prompt = "render_prompt (base_prompt bf) (dynamic_variables row)"
  have "prov = ''ollama'' \<or> (\<exists>resp. bench_response_for_provider caps prov ?prompt name = Inr resp)"
    using assms(1) by blast
  then obtain resp where d: "bench_response_for_provider caps prov ?prompt name = Inr resp"
    using run_prompt_total by blast
  obtain code where x: "parse_markdown_backticks caps (response resp) = Inr code"
    using assms(2) by blast
  show ?thesis using run_prompt_result[OF d x] by (rule exI)
qed

lemma run_prompt_Inr:
  assumes "run_prompt caps m prov name bf k row = Inr r"
  obtains resp code where
    "bench_response_for_provider caps prov (render_prompt (base_prompt bf) (dynamic_variables row)) name = Inr resp"
    and "parse_markdown_backticks caps (response resp) = Inr code"
proof (cases "bench_response_for_provider caps prov (render_prompt (base_prompt bf) (dynamic_variables row)) name")
  case (Inl e)
  with assms show ?thesis by (simp add: run_prompt_def Let_def)
next
  case (Inr resp)
  show ?thesis
  proof (cases "parse_markdown_backticks caps (response resp)")
    case (Inl e)
    with Inr assms show ?thesis by (simp add: run_prompt_def Let_def)
  next
    case inner: (Inr code)
    from Inr inner show ?thesis by (rule that)
  qed
qed

lemma evaluate_response_caught:
  assumes "evaluate_try caps ev code expected = Inl e"
  shows "evaluate_response caps ev code expected = (str_of_exception e, False)"
  using assms by (simp add: evaluate_response_def)

lemma evaluate_try_raised:
  assumes "(ev = execute_python_code_with_num_output \<and>
             (execute_python_code caps code = Inl e
              \<or> (\<exists>out. execute_python_code caps code = Inr out
                     \<and> eval_result_compare caps execute_python_code_with_num_output
                           expected (py_strip out) = Inl e)))
         \<or> (ev = execute_python_code_with_string_output \<and>
             (execute_python_code caps code = Inl e
              \<or> (\<exists>out. execute_python_code caps code = Inr out
                     \<and> eval_result_compare caps execute_python_code_with_string_output
                           expected out = Inl e)))
         \<or> (ev = raw_string_evaluator
              \<and> eval_result_compare caps raw_string_evaluator expected code = Inl e)
         \<or> (\<exists>txt. ev = other_evaluator txt \<and> e = ValueError (''Unsupported evaluator: '' @ txt))"
  shows "evaluate_try caps ev code expected = Inl e"
  using assms
proof (elim disjE conjE exE)
  assume "ev = execute_python_code_with_num_output" "execute_python_code caps code = Inl e"
  then show ?thesis by (simp add: evaluate_try_def)
next
  fix out
  assume "ev = execute_python_code_with_num_output" "execute_python_code caps code = Inr out"
    "eval_result_compare caps execute_python_code_with_num_output expected (py_strip out) = Inl e"
  then show ?thesis by (simp add: evaluate_try_def)
next
  assume "ev = execute_python_code_with_string_output" "execute_python_code caps code = Inl e"
  then show ?thesis by (simp add: evaluate_try_def)
next
  fix out
  assume "ev = execute_python_code_with_string_output" "execute_python_code caps code = Inr out"
    "eval_result_compare caps execute_python_code_with_string_output expected out = Inl e"
  then show ?thesis by (simp add: evaluate_try_def)
next
  assume "ev = raw_string_evaluator"
    "eval_result_compare caps raw_string_evaluator expected code = Inl e"
  then show ?thesis by (simp add: evaluate_try_def)
next
  fix kind
  assume "ev = other_evaluator kind" "e = ValueError (''Unsupported evaluator: '' @ kind)"
  then show ?thesis by (simp add: evaluate_try_def)
qed

lemma evaluate_try_unsupported:
  "evaluate_try caps (other_evaluator txt) code expected = Inl (ValueError (''Unsupported evaluator: '' @ txt))"
  by (simp add: evaluate_try_def)

lemma run_prompt_unsupported:
  assumes "evaluator bf = other_evaluator txt"
    and "run_prompt caps m prov name bf k row = Inr r"
  shows "\<not> correct r \<and> execution_result r = ''Unsupported evaluator: '' @ txt"
proof -
  from assms(2) obtain resp code where
    d: "bench_response_for_provider caps prov (render_prompt (base_prompt bf) (dynamic_variables row)) name = Inr resp"
    and x: "parse_markdown_backticks caps (response resp) = Inr code"
    by (rule run_prompt_Inr)
  have ev: "evaluate_response caps (evaluator bf) code (py_strip (expectation row))
          = (''Unsupported evaluator: '' @ txt, False)"
    using evaluate_response_caught[OF evaluate_try_unsupported] assms(1) by simp
  from assms(2) show ?thesis
    unfolding run_prompt_result[OF d x] ev by auto
qed

lemma parse_provider_supported:
  assumes "parse_model_string model_str = Inr (prov, name)"
  shows "prov \<in> set supported_providers"
proof (cases "contains provider_delimiter model_str")
  case False
  with assms have "prov = ''ollama''" by (simp add: parse_model_string_def)
  then show ?thesis by (simp add: supported_providers_def)
next
  case True
  with assms show ?thesis
    by (cases "py_split provider_delimiter model_str")
       (simp_all add: parse_model_string_def Let_def split: if_splits)
qed

lemma dispatch_supported:
  assumes "prov \<in> set supported_providers"
  shows "bench_response_for_provider caps prov prompt name =
           (if prov = ''ollama'' then bench_response_for_provider caps ''ollama'' prompt name
            else if prov = ''anthropic'' then anthropic_bench_prompt caps prompt name
            else if prov = ''deepseek'' then deepseek_bench_prompt caps prompt name
            else if prov = ''openai'' then openai_bench_prompt caps prompt name
            else gemini_bench_prompt caps prompt name)"
proof -
  from assms consider "prov = ''ollama''" | "prov = ''anthropic''" | "prov = ''deepseek''"
    | "prov = ''openai''" | "prov = ''gemini''"
    by (auto simp: supported_providers_def)
  then show ?thesis
    by cases (simp_all add: bench_response_for_provider_def)
qed

lemma dispatch_ollama_total:
  "\<exists>resp. bench_response_for_provider caps ''ollama'' prompt name = Inr resp"
  by (cases "ollama_bench_prompt caps prompt name") (simp_all add: bench_response_for_provider_def)

lemmas run_eval = run_benchmark_for_model_def parse_model_string_def provider_delimiter_def
  supported_providers_def starts_with_def run_prompt_def bench_response_for_provider_def
  render_prompt_def py_replace_def marker_def evaluate_response_def evaluate_try_def
  py_strip_def is_space_def Let_def

text \<open>
  Claim C4, as stated, fails where the code extractor raises: the extractor is called
  before the \<^verbatim>\<open>try\<close>, so its exception leaves the loop. With the local provider and a
  file of two rows, an extractor that raises during the second iteration makes the run
  raise; no list of two results is returned.
\<close>

theorem run_aborts_on_extractor_error:
  "run_benchmark_for_model extractor_fails_at_2 ''llama3'' two_row_file
     = Inl (Exception ''extraction failed'')"
  by (simp add: run_eval two_row_file_def extractor_fails_at_2_def healthy_def
        broken_extractor_def sample_response_def)

text \<open>
  Claim C4, amended. For every benchmark file with N prompt rows and every model string
  that parses, whose provider calls return normally (or whose provider is ollama) and
  for which the code extractor returns normally, \<open>run_benchmark_for_model\<close> returns
  exactly N results; their index fields are 1..N in order, and the k-th result carries
  the rendered prompt and the stripped expectation of the k-th row and the model string
  of the run. Errors raised by the code executor or by the comparison do not change this.
\<close>

theorem run_yields_all_results:
  assumes "parse_model_string m = Inr (prov, name)"
    and "prov = ''ollama'' \<or> (\<forall>i prompt. \<exists>resp. bench_response_for_provider (w i) prov prompt name = Inr resp)"
    and "\<forall>i txt. \<exists>code. parse_markdown_backticks (w i) txt = Inr code"
  shows "\<exists>rs. run_benchmark_for_model w m bf = Inr rs
           \<and> length rs = length (prompts bf)
           \<and> map index rs = [1..int (length (prompts bf))]
           \<and> map input_prompt rs = map (\<lambda>row. render_prompt (base_prompt bf) (dynamic_variables row)) (prompts bf)
           \<and> map expected_result rs = map (\<lambda>row. py_strip (expectation row)) (prompts bf)
           \<and> map model rs = map (\<lambda>row. m) (prompts bf)"
proof -
  have step: "\<exists>r. run_prompt (w k) m prov name bf k row = Inr r" for k row
  proof (rule run_prompt_succeeds)
    show "prov = ''ollama'' \<or> (\<forall>prompt. \<exists>resp. bench_response_for_provider (w k) prov prompt name = Inr resp)"
      using assms(2) by blast
    show "\<forall>txt. \<exists>code. parse_markdown_backticks (w k) txt = Inr code"
      using assms(3) by blast
  qed
  have run: "run_benchmark_for_model w m bf = run_prompts w m prov name bf 1 (prompts bf) []"
    using assms(1) by (simp add: run_benchmark_for_model_def)
  from run_prompts_total[of w m prov name bf 1 "prompts bf" "[]", OF step]
  show ?thesis unfolding run by simp
qed

theorem run_yields_all_results_witness:
  "\<exists>rs. run_benchmark_for_model (\<lambda>i. broken_executor) ''openai~gpt-4o''
            (two_row_file\<lparr>evaluator := execute_python_code_with_num_output\<rparr>) = Inr rs
        \<and> length rs = 2 \<and> map index rs = [1, 2] \<and> map correct rs = [False, False]"
proof -
  have p: "parse_model_string ''openai~gpt-4o'' = Inr (''openai'', ''gpt-4o'')"
    by (simp add: run_eval)
  have d: "''openai'' = ''ollama'' \<or> (\<forall>i prompt. \<exists>resp.
       bench_response_for_provider ((\<lambda>i. broken_executor) i) ''openai'' prompt ''gpt-4o'' = Inr resp)"
    by (simp add: bench_response_for_provider_def broken_executor_def healthy_def)
  have x: "\<forall>i txt. \<exists>code. parse_markdown_backticks ((\<lambda>i. broken_executor) i) txt = Inr code"
    by (simp add: broken_executor_def healthy_def)
  have u: "[1..int 2] = [1, 2]" by (simp add: upto_rec1)
  have c: "run_benchmark_for_model (\<lambda>i. broken_executor) ''openai~gpt-4o''
            (two_row_file\<lparr>evaluator := execute_python_code_with_num_output\<rparr>) = Inr rs
        \<Longrightarrow> map correct rs = [False, False]" for rs
    by (auto simp add: run_eval two_row_file_def healthy_def
        broken_executor_def sample_response_def)
  from run_yields_all_results[OF p d x, of "two_row_file\<lparr>evaluator := execute_python_code_with_num_output\<rparr>"]
  show ?thesis using u c by (auto simp: two_row_file_def)
qed

text \<open>
  Claim C5, as stated, fails for the extraction step: an exception raised by the code
  extractor is not caught at the scope of the prompt; no result is appended and the run
  raises.
\<close>

theorem extractor_error_not_caught:
  "run_benchmark_for_model (\<lambda>i. broken_extractor) ''llama3'' one_row_file
     = Inl (Exception ''extraction failed'')"
  by (simp add: run_eval one_row_file_def healthy_def broken_extractor_def sample_response_def)

text \<open>
  Claim C5, amended. For every prompt row whose provider call and code extraction
  returned, if an exception \<open>e\<close> is raised while executing or evaluating that prompt,
  it is caught at the scope of that prompt: the appended result has \<open>correct = False\<close>
  and \<open>execution_result\<close> equal to the text of \<open>e\<close>, and the loop goes on with the next
  row. The exception is raised by \<open>execute_python_code\<close> (numeric and string output),
  by \<open>eval_result_compare\<close> on the output of a code execution that returned (numeric
  output: on the stripped output), by \<open>eval_result_compare\<close> on the extracted text (raw
  string), or it is the \<^verbatim>\<open>ValueError\<close> for an unsupported evaluator. An exception of
  the code extractor is not caught there.
\<close>

theorem exception_caught_at_prompt_scope:
  assumes "bench_response_for_provider (w i) prov
             (render_prompt (base_prompt bf) (dynamic_variables row)) name = Inr resp"
    and "parse_markdown_backticks (w i) (response resp) = Inr code"
    and "(evaluator bf = execute_python_code_with_num_output \<and>
             (execute_python_code (w i) code = Inl e
              \<or> (\<exists>out. execute_python_code (w i) code = Inr out
                     \<and> eval_result_compare (w i) execute_python_code_with_num_output
                           (py_strip (expectation row)) (py_strip out) = Inl e)))
         \<or> (evaluator bf = execute_python_code_with_string_output \<and>
             (execute_python_code (w i) code = Inl e
              \<or> (\<exists>out. execute_python_code (w i) code = Inr out
                     \<and> eval_result_compare (w i) execute_python_code_with_string_output
                           (py_strip (expectation row)) out = Inl e)))
         \<or> (evaluator bf = raw_string_evaluator
              \<and> eval_result_compare (w i) raw_string_evaluator
                    (py_strip (expectation row)) code = Inl e)
         \<or> (\<exists>txt. evaluator bf = other_evaluator txt
                \<and> e = ValueError (''Unsupported evaluator: '' @ txt))"
  shows "\<exists>r. run_prompt (w i) m prov name bf i row = Inr r
           \<and> correct r = False
           \<and> execution_result r = str_of_exception e
           \<and> index r = i
           \<and> run_prompts w m prov name bf i (row # rows) acc
               = run_prompts w m prov name bf (i + 1) rows (acc @ [r])"
proof -
  note r = run_prompt_result[OF assms(1,2)]
  have "evaluate_try (w i) (evaluator bf) code (py_strip (expectation row)) = Inl e"
    using assms(3) by (rule evaluate_try_raised)
  then have ev: "evaluate_response (w i) (evaluator bf) code (py_strip (expectation row))
              = (str_of_exception e, False)"
    by (rule evaluate_response_caught)
  show ?thesis
    by (simp add: r ev)
qed

theorem exception_caught_at_prompt_scope_witness:
  "(\<exists>r. run_prompt broken_executor ''llama3'' ''ollama'' ''llama3''
           (one_row_file\<lparr>evaluator := execute_python_code_with_string_output\<rparr>) 1
           \<lparr>dynamic_variables = None, expectation = ''4''\<rparr> = Inr r
      \<and> correct r = False \<and> execution_result r = ''invalid syntax'' \<and> index r = 1)
   \<and> (\<exists>r. run_prompt broken_comparison ''llama3'' ''ollama'' ''llama3''
           (one_row_file\<lparr>evaluator := execute_python_code_with_num_output\<rparr>) 1
           \<lparr>dynamic_variables = None, expectation = ''4''\<rparr> = Inr r
      \<and> correct r = False \<and> execution_result r = ''comparison failed'' \<and> index r = 1)"
proof -
  let ?bs = "one_row_file\<lparr>evaluator := execute_python_code_with_string_output\<rparr>"
  let ?bn = "one_row_file\<lparr>evaluator := execute_python_code_with_num_output\<rparr>"
  let ?row = "\<lparr>dynamic_variables = None, expectation = ''4''\<rparr>"
  have d1: "bench_response_for_provider broken_executor ''ollama''
             (render_prompt (base_prompt ?bs) (dynamic_variables ?row)) ''llama3'' = Inr sample_response"
    by (simp add: bench_response_for_provider_def broken_executor_def healthy_def)
  have x1: "parse_markdown_backticks broken_executor (response sample_response) = Inr ''4''"
    by (simp add: broken_executor_def healthy_def sample_response_def)
  have t1: "evaluator ?bs = execute_python_code_with_string_output"
    "execute_python_code broken_executor ''4'' = Inl (Exception ''invalid syntax'')"
    by (simp_all add: broken_executor_def healthy_def)
  have d2: "bench_response_for_provider broken_comparison ''ollama''
             (render_prompt (base_prompt ?bn) (dynamic_variables ?row)) ''llama3'' = Inr sample_response"
    by (simp add: bench_response_for_provider_def broken_comparison_def healthy_def)
  have x2: "parse_markdown_backticks broken_comparison (response sample_response) = Inr ''4''"
    by (simp add: broken_comparison_def healthy_def sample_response_def)
  have t2: "evaluator ?bn = execute_python_code_with_num_output"
    "execute_python_code broken_comparison ''4'' = Inr ''4''"
    "eval_result_compare broken_comparison execute_python_code_with_num_output
       (py_strip (expectation ?row)) (py_strip ''4'') = Inl (Exception ''comparison failed'')"
    by (simp_all add: broken_comparison_def healthy_def)
  have a: "\<exists>r. run_prompt broken_executor ''llama3'' ''ollama'' ''llama3'' ?bs 1 ?row = Inr r
      \<and> correct r = False \<and> execution_result r = ''invalid syntax'' \<and> index r = 1"
    using exception_caught_at_prompt_scope[where w = "\<lambda>i. broken_executor" and i = 1
      and prov = "''ollama''" and name = "''llama3''" and bf = ?bs and row = ?row
      and resp = sample_response and code = "''4''" and e = "Exception ''invalid syntax''"
      and m = "''llama3''" and rows = "[]" and acc = "[]"] d1 x1 t1
    by auto
  have b: "\<exists>r. run_prompt broken_comparison ''llama3'' ''ollama'' ''llama3'' ?bn 1 ?row = Inr r
      \<and> correct r = False \<and> execution_result r = ''comparison failed'' \<and> index r = 1"
    using exception_caught_at_prompt_scope[where w = "\<lambda>i. broken_comparison" and i = 1
      and prov = "''ollama''" and name = "''llama3''" and bf = ?bn and row = ?row
      and resp = sample_response and code = "''4''" and e = "Exception ''comparison failed''"
      and m = "''llama3''" and rows = "[]" and acc = "[]"] d2 x2 t2
    by auto
  from a b show ?thesis by (rule conjI)
qed

text \<open>
  Claim C2, as stated, fails: the \<^verbatim>\<open>ValueError\<close> for an unsupported evaluator is raised
  inside the \<^verbatim>\<open>try\<close> and caught by its \<^verbatim>\<open>except Exception\<close>. The run returns
  normally, with the error text recorded in an incorrect result.
\<close>

theorem unsupported_evaluator_does_not_abort:
  "run_benchmark_for_model (\<lambda>i. healthy) ''llama3''
     (one_row_file\<lparr>evaluator := other_evaluator ''json_validator''\<rparr>)
   = Inr [\<lparr> input_prompt = ''2+2'', prompt_response = sample_response,
             execution_result = ''Unsupported evaluator: json_validator'',
             expected_result = ''4'', model = ''llama3'', correct = False, index = 1 \<rparr>]"
  by (simp add: run_eval one_row_file_def healthy_def sample_response_def)

text \<open>
  Claim C2, amended. For every benchmark file whose evaluator kind is none of the three
  supported kinds, and every model string that parses, whose provider calls return
  normally (or whose provider is ollama) and for which the code extractor returns
  normally, the run is not aborted: it returns one result per prompt row, each with
  \<open>correct = False\<close> and the text \<^verbatim>\<open>Unsupported evaluator: <kind>\<close> as
  \<open>execution_result\<close>.
\<close>

theorem unsupported_evaluator_recorded:
  assumes "parse_model_string m = Inr (prov, name)"
    and "prov = ''ollama'' \<or> (\<forall>i prompt. \<exists>resp. bench_response_for_provider (w i) prov prompt name = Inr resp)"
    and "\<forall>i txt. \<exists>code. parse_markdown_backticks (w i) txt = Inr code"
    and "evaluator bf = other_evaluator txt"
  shows "\<exists>rs. run_benchmark_for_model w m bf = Inr rs
           \<and> length rs = length (prompts bf)
           \<and> list_all (\<lambda>r. \<not> correct r \<and> execution_result r = ''Unsupported evaluator: '' @ txt) rs"
proof -
  have step: "\<exists>r. run_prompt (w k) m prov name bf k row = Inr r" for k row
  proof (rule run_prompt_succeeds)
    show "prov = ''ollama'' \<or> (\<forall>prompt. \<exists>resp. bench_response_for_provider (w k) prov prompt name = Inr resp)"
      using assms(2) by blast
    show "\<forall>txt. \<exists>code. parse_markdown_backticks (w k) txt = Inr code"
      using assms(3) by blast
  qed
  have run: "run_benchmark_for_model w m bf = run_prompts w m prov name bf 1 (prompts bf) []"
    using assms(1) by (simp add: run_benchmark_for_model_def)
  from run_prompts_total[of w m prov name bf 1 "prompts bf" "[]", OF step]
  obtain rs where rs: "run_prompts w m prov name bf 1 (prompts bf) [] = Inr rs"
    and len: "length rs = length (prompts bf)"
    by auto
  have "list_all (\<lambda>r. \<not> correct r \<and> execution_result r = ''Unsupported evaluator: '' @ txt) rs"
  proof (rule run_prompts_all[OF rs])
    show "list_all (\<lambda>r. \<not> correct r \<and> execution_result r = ''Unsupported evaluator: '' @ txt) []"
      by simp
  next
    fix k row r
    assume "run_prompt (w k) m prov name bf k row = Inr r"
    with assms(4) show "\<not> correct r \<and> execution_result r = ''Unsupported evaluator: '' @ txt"
      by (rule run_prompt_unsupported)
  qed
  with rs len show ?thesis unfolding run by blast
qed

theorem unsupported_evaluator_recorded_witness:
  "\<exists>rs. run_benchmark_for_model (\<lambda>i. healthy) ''gemini~flash''
           (two_row_file\<lparr>evaluator := other_evaluator ''json_validator''\<rparr>) = Inr rs
      \<and> length rs = 2
      \<and> list_all (\<lambda>r. \<not> correct r \<and> execution_result r = ''Unsupported evaluator: json_validator'') rs"
proof -
  let ?bf = "two_row_file\<lparr>evaluator := other_evaluator ''json_validator''\<rparr>"
  have p: "parse_model_string ''gemini~flash'' = Inr (''gemini'', ''flash'')"
    by (simp add: run_eval)
  have d: "''gemini'' = ''ollama'' \<or> (\<forall>i prompt. \<exists>resp.
       bench_response_for_provider ((\<lambda>i. healthy) i) ''gemini'' prompt ''flash'' = Inr resp)"
    by (simp add: bench_response_for_provider_def healthy_def)
  have x: "\<forall>i txt. \<exists>code. parse_markdown_backticks ((\<lambda>i. healthy) i) txt = Inr code"
    by (simp add: healthy_def)
  have e: "evaluator ?bf = other_evaluator ''json_validator''" by simp
  have l: "length (prompts ?bf) = 2" by (simp add: two_row_file_def)
  from unsupported_evaluator_recorded[OF p d x e]
  show ?thesis unfolding l by simp
qed

text \<open>
  Claim C6, as stated, fails in its clause that the run continues: the failure of the
  ollama capability is caught and turned into a response, but the code extractor is then
  called on the body of that response, before the \<^verbatim>\<open>try\<close>. With no server answering and
  an extractor that raises, the run of a file of two rows raises in its first iteration.
\<close>

theorem ollama_failure_then_extractor_error_aborts:
  "run_benchmark_for_model (\<lambda>i. offline_broken_extractor) ''llama3'' two_row_file
     = Inl (Exception ''extraction failed'')"
  by (simp add: run_eval two_row_file_def offline_broken_extractor_def offline_def healthy_def)

text \<open>
  Claim C6, amended. For the ollama provider, a failure \<open>e\<close> of the completion capability
  is caught and turned into a response with \<open>errored = True\<close>, the three timing fields
  zero, the provider tag \<^verbatim>\<open>ollama\<close> and the body \<^verbatim>\<open>Error: \<close> followed by the text of
  \<open>e\<close>. The iteration goes on with the code extractor applied to that body: where the
  extractor returns, a result with that response and the index of the row is appended
  and the loop goes on with the next row; where the extractor raises, its exception
  leaves the loop. For the providers anthropic, deepseek, openai and gemini a failure of
  the capability is the result of the dispatch, and it leaves the loop of the run.
\<close>

theorem provider_failure_handling:
  "(ollama_bench_prompt caps prompt name = Inl e \<longrightarrow>
      bench_response_for_provider caps ''ollama'' prompt name
        = Inr \<lparr> response = ''Error: '' @ str_of_exception e, tokens_per_second = 0,
                provider = ''ollama'', total_duration_ms = 0, load_duration_ms = 0,
                errored = True \<rparr>)
   \<and> (anthropic_bench_prompt caps prompt name = Inl e \<longrightarrow>
        bench_response_for_provider caps ''anthropic'' prompt name = Inl e)
   \<and> (deepseek_bench_prompt caps prompt name = Inl e \<longrightarrow>
        bench_response_for_provider caps ''deepseek'' prompt name = Inl e)
   \<and> (openai_bench_prompt caps prompt name = Inl e \<longrightarrow>
        bench_response_for_provider caps ''openai'' prompt name = Inl e)
   \<and> (gemini_bench_prompt caps prompt name = Inl e \<longrightarrow>
        bench_response_for_provider caps ''gemini'' prompt name = Inl e)
   \<and> (bench_response_for_provider (w i) prov
          (render_prompt (base_prompt bf) (dynamic_variables row)) name = Inl e \<longrightarrow>
        run_prompts w m prov name bf i (row # rows) acc = Inl e)
   \<and> (ollama_bench_prompt (w i) (render_prompt (base_prompt bf) (dynamic_variables row)) name = Inl e
        \<and> parse_markdown_backticks (w i) (''Error: '' @ str_of_exception e) = Inr code \<longrightarrow>
        (\<exists>r. prompt_response r
                = \<lparr> response = ''Error: '' @ str_of_exception e, tokens_per_second = 0,
                    provider = ''ollama'', total_duration_ms = 0, load_duration_ms = 0,
                    errored = True \<rparr>
           \<and> index r = i
           \<and> run_prompts w m ''ollama'' name bf i (row # rows) acc
               = run_prompts w m ''ollama'' name bf (i + 1) rows (acc @ [r])))
   \<and> (ollama_bench_prompt (w i) (render_prompt (base_prompt bf) (dynamic_variables row)) name = Inl e \<longrightarrow>
        run_prompts w m ''ollama'' name bf i (row # rows) acc
          = (case parse_markdown_backticks (w i) (''Error: '' @ str_of_exception e) of
               Inl extractor_error \<Rightarrow> Inl extractor_error
             | Inr cleaned_code \<Rightarrow>
                 run_prompts w m ''ollama'' name bf (i + 1) rows
                   (acc @ [\<lparr> input_prompt = render_prompt (base_prompt bf) (dynamic_variables row),
                             prompt_response
                               = \<lparr> response = ''Error: '' @ str_of_exception e, tokens_per_second = 0,
                                   provider = ''ollama'', total_duration_ms = 0,
                                   load_duration_ms = 0, errored = True \<rparr>,
                             execution_result = fst (evaluate_response (w i) (evaluator bf)
                                                       cleaned_code (py_strip (expectation row))),
                             expected_result = py_strip (expectation row),
                             model = m,
                             correct = snd (evaluate_response (w i) (evaluator bf)
                                              cleaned_code (py_strip (expectation row))),
                             index = i \<rparr>])))"
proof (intro conjI impI)
  assume "ollama_bench_prompt caps prompt name = Inl e"
  then show "bench_response_for_provider caps ''ollama'' prompt name
        = Inr \<lparr> response = ''Error: '' @ str_of_exception e, tokens_per_second = 0,
                provider = ''ollama'', total_duration_ms = 0, load_duration_ms = 0,
                errored = True \<rparr>"
    by (simp add: bench_response_for_provider_def)
next
  assume "anthropic_bench_prompt caps prompt name = Inl e"
  then show "bench_response_for_provider caps ''anthropic'' prompt name = Inl e"
    by (simp add: bench_response_for_provider_def)
next
  assume "deepseek_bench_prompt caps prompt name = Inl e"
  then show "bench_response_for_provider caps ''deepseek'' prompt name = Inl e"
    by (simp add: bench_response_for_provider_def)
next
  assume "openai_bench_prompt caps prompt name = Inl e"
  then show "bench_response_for_provider caps ''openai'' prompt name = Inl e"
    by (simp add: bench_response_for_provider_def)
next
  assume "gemini_bench_prompt caps prompt name = Inl e"
  then show "bench_response_for_provider caps ''gemini'' prompt name = Inl e"
    by (simp add: bench_response_for_provider_def)
next
  assume "bench_response_for_provider (w i) prov
          (render_prompt (base_prompt bf) (dynamic_variables row)) name = Inl e"
  then show "run_prompts w m prov name bf i (row # rows) acc = Inl e"
    by (simp add: run_prompt_def Let_def)
next
  let ?resp = "\<lparr> response = ''Error: '' @ str_of_exception e, tokens_per_second = 0,
                    provider = ''ollama'', total_duration_ms = 0, load_duration_ms = 0,
                    errored = True \<rparr>"
  assume a: "ollama_bench_prompt (w i) (render_prompt (base_prompt bf) (dynamic_variables row)) name = Inl e
        \<and> parse_markdown_backticks (w i) (''Error: '' @ str_of_exception e) = Inr code"
  then have d: "bench_response_for_provider (w i) ''ollama''
       (render_prompt (base_prompt bf) (dynamic_variables row)) name = Inr ?resp"
    by (simp add: bench_response_for_provider_def)
  from a have x: "parse_markdown_backticks (w i) (response ?resp) = Inr code" by simp
  note r = run_prompt_result[OF d x, where m = m and i = i]
  let ?r = "\<lparr> input_prompt = render_prompt (base_prompt bf) (dynamic_variables row),
                 prompt_response = ?resp,
                 execution_result = fst (evaluate_response (w i) (evaluator bf) code (py_strip (expectation row))),
                 expected_result = py_strip (expectation row),
                 model = m,
                 correct = snd (evaluate_response (w i) (evaluator bf) code (py_strip (expectation row))),
                 index = i \<rparr>"
  have "prompt_response ?r = ?resp \<and> index ?r = i
           \<and> run_prompts w m ''ollama'' name bf i (row # rows) acc
               = run_prompts w m ''ollama'' name bf (i + 1) rows (acc @ [?r])"
    using r by simp
  then show "\<exists>r. prompt_response r = ?resp \<and> index r = i
           \<and> run_prompts w m ''ollama'' name bf i (row # rows) acc
               = run_prompts w m ''ollama'' name bf (i + 1) rows (acc @ [r])"
    by (rule exI)
next
  let ?resp = "\<lparr> response = ''Error: '' @ str_of_exception e, tokens_per_second = 0,
                    provider = ''ollama'', total_duration_ms = 0, load_duration_ms = 0,
                    errored = True \<rparr>"
  assume "ollama_bench_prompt (w i) (render_prompt (base_prompt bf) (dynamic_variables row)) name = Inl e"
  then have d: "bench_response_for_provider (w i) ''ollama''
       (render_prompt (base_prompt bf) (dynamic_variables row)) name = Inr ?resp"
    by (simp add: bench_response_for_provider_def)
  show "run_prompts w m ''ollama'' name bf i (row # rows) acc
          = (case parse_markdown_backticks (w i) (''Error: '' @ str_of_exception e) of
               Inl extractor_error \<Rightarrow> Inl extractor_error
             | Inr cleaned_code \<Rightarrow>
                 run_prompts w m ''ollama'' name bf (i + 1) rows
                   (acc @ [\<lparr> input_prompt = render_prompt (base_prompt bf) (dynamic_variables row),
                             prompt_response = ?resp,
                             execution_result = fst (evaluate_response (w i) (evaluator bf)
                                                       cleaned_code (py_strip (expectation row))),
                             expected_result = py_strip (expectation row),
                             model = m,
                             correct = snd (evaluate_response (w i) (evaluator bf)
                                              cleaned_code (py_strip (expectation row))),
                             index = i \<rparr>]))"
  proof (cases "parse_markdown_backticks (w i) (''Error: '' @ str_of_exception e)")
    case (Inl extractor_error)
    with d show ?thesis by (simp add: run_prompt_def Let_def)
  next
    case (Inr cleaned_code)
    then have x: "parse_markdown_backticks (w i) (response ?resp) = Inr cleaned_code" by simp
    note r = run_prompt_result[OF d x, where m = m and i = i]
    from Inr show ?thesis by (simp add: r)
  qed
qed

theorem provider_failure_handling_witness:
  "bench_response_for_provider offline ''ollama'' ''2+2'' ''llama3''
     = Inr \<lparr> response = ''Error: connection refused'', tokens_per_second = 0,
             provider = ''ollama'', total_duration_ms = 0, load_duration_ms = 0,
             errored = True \<rparr>
   \<and> bench_response_for_provider offline ''anthropic'' ''2+2'' ''llama3'' = Inl (Exception ''connection refused'')
   \<and> bench_response_for_provider offline ''deepseek'' ''2+2'' ''llama3'' = Inl (Exception ''connection refused'')
   \<and> bench_response_for_provider offline ''openai'' ''2+2'' ''llama3'' = Inl (Exception ''connection refused'')
   \<and> bench_response_for_provider offline ''gemini'' ''2+2'' ''llama3'' = Inl (Exception ''connection refused'')
   \<and> run_prompts (\<lambda>i. offline) ''openai~llama3'' ''openai'' ''llama3'' one_row_file 1
         (prompts one_row_file) [] = Inl (Exception ''connection refused'')
   \<and> (\<exists>r. run_prompts (\<lambda>i. offline) ''llama3'' ''ollama'' ''llama3'' one_row_file 1
              (prompts one_row_file) [] = Inr [r] \<and> index r = 1 \<and> errored (prompt_response r))
   \<and> run_prompts (\<lambda>i. offline_broken_extractor) ''llama3'' ''ollama'' ''llama3'' one_row_file 1
         (prompts one_row_file) [] = Inl (Exception ''extraction failed'')"
proof -
  have o: "ollama_bench_prompt offline ''2+2'' ''llama3'' = Inl (Exception ''connection refused'')"
    "anthropic_bench_prompt offline ''2+2'' ''llama3'' = Inl (Exception ''connection refused'')"
    "deepseek_bench_prompt offline ''2+2'' ''llama3'' = Inl (Exception ''connection refused'')"
    "openai_bench_prompt offline ''2+2'' ''llama3'' = Inl (Exception ''connection refused'')"
    "gemini_bench_prompt offline ''2+2'' ''llama3'' = Inl (Exception ''connection refused'')"
    "parse_markdown_backticks offline ''Error: connection refused'' = Inr ''Error: connection refused''"
    by (simp_all add: offline_def healthy_def)
  have f: "prompts one_row_file = [\<lparr>dynamic_variables = None, expectation = ''4''\<rparr>]"
    "render_prompt (base_prompt one_row_file) None = ''2+2''"
    by (simp_all add: one_row_file_def render_prompt_def)
  have d: "bench_response_for_provider offline ''openai'' ''2+2'' ''llama3'' = Inl (Exception ''connection refused'')"
    using o(4) by (simp add: bench_response_for_provider_def)
  note remote = provider_failure_handling[where caps = offline and prompt = "''2+2''" and name = "''llama3''"
      and e = "Exception ''connection refused''" and w = "\<lambda>i. offline" and i = 1
      and prov = "''openai''" and bf = one_row_file and m = "''openai~llama3''"
      and row = "\<lparr>dynamic_variables = None, expectation = ''4''\<rparr>"
      and rows = "[]" and acc = "[]" and code = "''Error: connection refused''"]
  note local = provider_failure_handling[where caps = offline and prompt = "''2+2''" and name = "''llama3''"
      and e = "Exception ''connection refused''" and w = "\<lambda>i. offline" and i = 1
      and prov = "''ollama''" and bf = one_row_file and m = "''llama3''"
      and row = "\<lparr>dynamic_variables = None, expectation = ''4''\<rparr>"
      and rows = "[]" and acc = "[]" and code = "''Error: connection refused''"]
  have a: "run_prompts (\<lambda>i. offline) ''openai~llama3'' ''openai'' ''llama3'' one_row_file 1
         (prompts one_row_file) [] = Inl (Exception ''connection refused'')"
    using remote o f d by simp
  have b: "\<exists>r. run_prompts (\<lambda>i. offline) ''llama3'' ''ollama'' ''llama3'' one_row_file 1
              (prompts one_row_file) [] = Inr [r] \<and> index r = 1 \<and> errored (prompt_response r)"
    using local o f by auto
  have o': "ollama_bench_prompt offline_broken_extractor ''2+2'' ''llama3''
               = Inl (Exception ''connection refused'')"
    "parse_markdown_backticks offline_broken_extractor ''Error: connection refused''
               = Inl (Exception ''extraction failed'')"
    by (simp_all add: offline_broken_extractor_def offline_def healthy_def)
  have c: "run_prompts (\<lambda>i. offline_broken_extractor) ''llama3'' ''ollama'' ''llama3'' one_row_file 1
         (prompts one_row_file) [] = Inl (Exception ''extraction failed'')"
    using provider_failure_handling[where caps = offline_broken_extractor and prompt = "''2+2''"
      and name = "''llama3''" and e = "Exception ''connection refused''"
      and w = "\<lambda>i. offline_broken_extractor" and i = 1
      and prov = "''ollama''" and bf = one_row_file and m = "''llama3''"
      and row = "\<lparr>dynamic_variables = None, expectation = ''4''\<rparr>"
      and rows = "[]" and acc = "[]" and code = "''Error: connection refused''"] o' f
    by simp
  from remote o a b c show ?thesis by simp
qed

text \<open>
  Claim C9. For every model string on which \<open>parse_model_string\<close> returns, the provider
  is one of the five tags of the dispatch (ollama, anthropic, deepseek, openai, gemini).
  The dispatch on such a provider is the call of one of the five capabilities, so the
  branch that raises \<^verbatim>\<open>Unsupported model provider\<close> is not taken: an error of the
  dispatch is an error raised by a remote capability.
\<close>

theorem parsed_provider_is_dispatched:
  assumes "parse_model_string model_str = Inr (prov, name)"
  shows "prov \<in> {''ollama'', ''anthropic'', ''deepseek'', ''openai'', ''gemini''}
       \<and> bench_response_for_provider caps prov prompt name =
           (if prov = ''ollama'' then bench_response_for_provider caps ''ollama'' prompt name
            else if prov = ''anthropic'' then anthropic_bench_prompt caps prompt name
            else if prov = ''deepseek'' then deepseek_bench_prompt caps prompt name
            else if prov = ''openai'' then openai_bench_prompt caps prompt name
            else gemini_bench_prompt caps prompt name)
       \<and> (bench_response_for_provider caps prov prompt name = Inl e \<longrightarrow>
            anthropic_bench_prompt caps prompt name = Inl e
          \<or> deepseek_bench_prompt caps prompt name = Inl e
          \<or> openai_bench_prompt caps prompt name = Inl e
          \<or> gemini_bench_prompt caps prompt name = Inl e)"
proof -
  have s: "prov \<in> set supported_providers"
    using assms by (rule parse_provider_supported)
  then have a: "prov \<in> {''ollama'', ''anthropic'', ''deepseek'', ''openai'', ''gemini''}"
    by (simp add: supported_providers_def)
  note b = dispatch_supported[OF s, of caps prompt name]
  have c: "anthropic_bench_prompt caps prompt name = Inl e
          \<or> deepseek_bench_prompt caps prompt name = Inl e
          \<or> openai_bench_prompt caps prompt name = Inl e
          \<or> gemini_bench_prompt caps prompt name = Inl e"
    if f: "bench_response_for_provider caps prov prompt name = Inl e"
  proof (cases "prov = ''ollama''")
    case True
    with f dispatch_ollama_total[of caps prompt name] show ?thesis by auto
  next
    case False
    with f b show ?thesis by (auto split: if_splits)
  qed
  from a b c show ?thesis by blast
qed

theorem parsed_provider_is_dispatched_witness:
  "parse_model_string ''deepseek~coder'' = Inr (''deepseek'', ''coder'')
   \<and> ''deepseek'' \<in> {''ollama'', ''anthropic'', ''deepseek'', ''openai'', ''gemini''}
   \<and> bench_response_for_provider offline ''deepseek'' ''2+2'' ''coder''
        = deepseek_bench_prompt offline ''2+2'' ''coder''"
proof -
  have p: "parse_model_string ''deepseek~coder'' = Inr (''deepseek'', ''coder'')"
    by (simp add: run_eval)
  from parsed_provider_is_dispatched[OF p, of offline "''2+2''" "Exception ''connection refused''"]
  show ?thesis using p by simp
qed

section \<open>Properties of the report generator\<close>

lemma update_absent_sum:
  fixes g :: "'k \<times> 'v \<Rightarrow> 'a::comm_monoid_add"
  assumes "map_of d k = None"
  shows "sum_list (map g (AList.update k v d)) = sum_list (map g d) + g (k, v)"
  using assms by (induction d) (auto simp: add.assoc split: if_splits)

lemma update_present_sum:
  fixes g :: "'k \<times> 'v \<Rightarrow> 'a::comm_monoid_add"
  assumes "map_of d k = Some v" and "g (k, v') = g (k, v) + x"
  shows "sum_list (map g (AList.update k v' d)) = sum_list (map g d) + x"
  using assms
proof (induction d)
  case Nil
  then show ?case by simp
next
  case (Cons a d)
  then show ?case
    by (cases a) (auto simp: add.assoc add.commute add.left_commute split: if_splits)
qed

lemma group_result_sum:
  fixes f :: "ExeEvalBenchmarkOutputResult \<Rightarrow> 'a::comm_monoid_add"
  shows "sum_list (map (\<lambda>g. sum_list (map f (snd g))) (group_result d r))
           = sum_list (map (\<lambda>g. sum_list (map f (snd g))) d) + f r"
proof (cases "map_of d (model r)")
  case None
  then show ?thesis
    by (simp add: group_result_def update_absent_sum)
next
  case (Some rs)
  then show ?thesis
    by (simp add: group_result_def update_present_sum[where v = rs])
qed

lemma group_results_sum:
  fixes f :: "ExeEvalBenchmarkOutputResult \<Rightarrow> 'a::comm_monoid_add"
  shows "sum_list (map (\<lambda>g. sum_list (map f (snd g))) (group_results d rs))
           = sum_list (map (\<lambda>g. sum_list (map f (snd g))) d) + sum_list (map f rs)"
  by (induction rs arbitrary: d) (simp_all add: group_result_sum add.assoc)

lemma update_nonempty:
  assumes "list_all (\<lambda>g. snd g \<noteq> []) d" and "v \<noteq> []"
  shows "list_all (\<lambda>g. snd g \<noteq> []) (AList.update k v d)"
  using assms by (induction d) auto

lemma update_not_Nil: "AList.update k v d \<noteq> []"
  by (cases d) auto

lemma group_result_nonempty:
  assumes "list_all (\<lambda>g. snd g \<noteq> []) d"
  shows "list_all (\<lambda>g. snd g \<noteq> []) (group_result d r)"
  using assms by (cases "map_of d (model r)") (simp_all add: group_result_def update_nonempty)

lemma group_results_nonempty:
  assumes "list_all (\<lambda>g. snd g \<noteq> []) d"
  shows "list_all (\<lambda>g. snd g \<noteq> []) (group_results d rs)"
  using assms by (induction rs arbitrary: d) (simp_all add: group_result_nonempty)

lemma group_result_not_Nil: "group_result d r \<noteq> []"
  by (cases "map_of d (model r)") (simp_all add: group_result_def update_not_Nil)

lemma group_results_not_Nil: "d \<noteq> [] \<or> rs \<noteq> [] \<Longrightarrow> group_results d rs \<noteq> []"
  by (induction rs arbitrary: d) (simp_all add: group_result_not_Nil)

lemma model_report_nonempty:
  assumes "rs \<noteq> []"
  shows "\<exists>rep. model_report m rs = Inr rep
           \<and> report_model rep = m \<and> report_results rep = rs
           \<and> correct_count rep = sum_list (map (\<lambda>r. if correct r then 1 else 0) rs)
           \<and> incorrect_count rep = int (length rs) - sum_list (map (\<lambda>r. if correct r then 1 else 0) rs)
           \<and> accuracy rep = of_int (correct_count rep) / of_nat (length rs)"
  using assms by (simp add: model_report_def py_truediv_def Let_def sum_list_map_filter')

lemma create_model_reports_nonempty:
  assumes "list_all (\<lambda>g. snd g \<noteq> []) items"
  shows "\<exists>reps. create_model_reports items acc = Inr (acc @ reps)
           \<and> length reps = length items
           \<and> map report_results reps = map snd items
           \<and> map correct_count reps = map (\<lambda>g. sum_list (map (\<lambda>r. if correct r then 1 else 0) (snd g))) items
           \<and> map incorrect_count reps = map (\<lambda>g. sum_list (map (\<lambda>r. if correct r then 0 else 1) (snd g))) items"
  using assms
proof (induction items arbitrary: acc)
  case Nil
  then show ?case by simp
next
  case (Cons g items)
  obtain m rs where g: "g = (m, rs)" by (cases g)
  with Cons.prems have ne: "rs \<noteq> []" and rest: "list_all (\<lambda>g. snd g \<noteq> []) items" by simp_all
  from model_report_nonempty[OF ne, of m] obtain rep where rep: "model_report m rs = Inr rep"
    and r1: "report_results rep = rs"
    and r2: "correct_count rep = sum_list (map (\<lambda>r. if correct r then 1 else 0) rs)"
    and r3: "incorrect_count rep = int (length rs) - sum_list (map (\<lambda>r. if correct r then 1 else 0) rs)"
    by (elim exE conjE)
  have "int (length rs) = sum_list (map (\<lambda>r. (if correct r then 1 else 0) + (if correct r then 0 else 1)) rs)"
    by (induction rs) simp_all
  also have "\<dots> = sum_list (map (\<lambda>r. if correct r then 1 else 0) rs)
                  + sum_list (map (\<lambda>r. if correct r then 0 else 1) rs)"
    by (rule sum_list_addf)
  finally have r3': "incorrect_count rep = sum_list (map (\<lambda>r. if correct r then 0 else 1) rs)"
    using r3 by simp
  from Cons.IH[OF rest, of "acc @ [rep]"] obtain reps where
    c: "create_model_reports items (acc @ [rep]) = Inr ((acc @ [rep]) @ reps)"
    and l: "length reps = length items"
    and m1: "map report_results reps = map snd items"
    and m2: "map correct_count reps = map (\<lambda>g. sum_list (map (\<lambda>r. if correct r then 1 else 0) (snd g))) items"
    and m3: "map incorrect_count reps = map (\<lambda>g. sum_list (map (\<lambda>r. if correct r then 0 else 1) (snd g))) items"
    by (elim exE conjE)
  have a: "create_model_reports (g # items) acc = Inr (acc @ (rep # reps))"
    using g rep c by simp
  have b: "length (rep # reps) = length (g # items)" using l by simp
  have d1: "map report_results (rep # reps) = map snd (g # items)" using g r1 m1 by simp
  have d2: "map correct_count (rep # reps)
      = map (\<lambda>g. sum_list (map (\<lambda>r. if correct r then 1 else 0) (snd g))) (g # items)"
    using g r2 m2 by simp
  have d3: "map incorrect_count (rep # reps)
      = map (\<lambda>g. sum_list (map (\<lambda>r. if correct r then 0 else 1) (snd g))) (g # items)"
    using g r3' m3 by simp
  from a b d1 d2 d3 show ?case by blast
qed

lemma aggregation_pass_eq:
  "aggregation_pass cr l0 =
     (case create_model_reports (group_results [] (results cr)) [] of
        Inl e \<Rightarrow> Inl e
      | Inr reps \<Rightarrow>
     (case py_truediv (of_int (sum_list (map correct_count reps)))
             (of_int (sum_list (map correct_count reps) + sum_list (map incorrect_count reps))) of
        Inl e \<Rightarrow> Inl e
      | Inr acc \<Rightarrow>
     (case py_truediv (sum_list (map average_tokens_per_second reps)) (of_nat (length reps)) of
        Inl e \<Rightarrow> Inl e
      | Inr tps \<Rightarrow>
     (case py_truediv (sum_list (map average_total_duration_ms reps)) (of_nat (length reps)) of
        Inl e \<Rightarrow> Inl e
      | Inr total_dur \<Rightarrow>
     (case py_truediv (sum_list (map average_load_duration_ms reps)) (of_nat (length reps)) of
        Inl e \<Rightarrow> Inl e
      | Inr load_dur \<Rightarrow>
          Inr \<lparr> model_reports = reps,
                model_results = group_results [] (results cr),
                overall_correct = sum_list (map correct_count reps),
                overall_incorrect = sum_list (map incorrect_count reps),
                overall_acc = acc,
                avg_tokens_per_second = tps,
                avg_total_duration = total_dur,
                avg_load_duration = load_dur \<rparr>)))))"
  by (cases l0) (simp add: aggregation_pass_def Let_def split: sum.splits)

lemma aggregation_pass_independent: "aggregation_pass cr l = aggregation_pass cr l'"
  unfolding aggregation_pass_eq[of cr l] aggregation_pass_eq[of cr l'] ..

lemma count_split:
  "sum_list (map (\<lambda>r. if correct r then 1 else 0) rs)
     + sum_list (map (\<lambda>r. if correct r then 0 else 1) rs) = int (length rs)"
  by (induction rs) simp_all

lemma count_filter:
  "sum_list (map (\<lambda>r. if correct r then 1 else 0) rs) = int (length (filter correct rs))"
  by (induction rs) simp_all

lemma aggregation_pass_nonempty:
  assumes "results cr \<noteq> []"
  shows "\<exists>l. aggregation_pass cr l0 = Inr l
           \<and> model_reports l \<noteq> []
           \<and> list_all (\<lambda>g. snd g \<noteq> []) (model_results l)
           \<and> map report_results (model_reports l) = map snd (model_results l)
           \<and> overall_correct l = sum_list (map correct_count (model_reports l))
           \<and> overall_incorrect l = sum_list (map incorrect_count (model_reports l))
           \<and> overall_correct l = int (length (filter correct (results cr)))
           \<and> overall_correct l + overall_incorrect l = int (length (results cr))
           \<and> overall_acc l = of_int (overall_correct l) / of_int (overall_correct l + overall_incorrect l)
           \<and> avg_tokens_per_second l
               = sum_list (map average_tokens_per_second (model_reports l)) / of_nat (length (model_reports l))
           \<and> avg_total_duration l
               = sum_list (map average_total_duration_ms (model_reports l)) / of_nat (length (model_reports l))
           \<and> avg_load_duration l
               = sum_list (map average_load_duration_ms (model_reports l)) / of_nat (length (model_reports l))"
proof -
  let ?groups = "group_results [] (results cr)"
  have ne: "list_all (\<lambda>g. snd g \<noteq> []) ?groups"
    by (rule group_results_nonempty) simp
  have gn: "?groups \<noteq> []"
    using assms by (intro group_results_not_Nil) simp
  from create_model_reports_nonempty[OF ne, of "[]"] obtain reps where
    c: "create_model_reports ?groups [] = Inr reps"
    and l: "length reps = length ?groups"
    and m1: "map report_results reps = map snd ?groups"
    and m2: "map correct_count reps = map (\<lambda>g. sum_list (map (\<lambda>r. if correct r then 1 else 0) (snd g))) ?groups"
    and m3: "map incorrect_count reps = map (\<lambda>g. sum_list (map (\<lambda>r. if correct r then 0 else 1) (snd g))) ?groups"
    by auto
  have rn: "reps \<noteq> []" using l gn by auto
  have oc: "sum_list (map correct_count reps) = int (length (filter correct (results cr)))"
    unfolding m2 group_results_sum by (simp add: count_filter)
  have oi: "sum_list (map incorrect_count reps)
              = sum_list (map (\<lambda>r. if correct r then 0 else 1) (results cr))"
    unfolding m3 group_results_sum by simp
  have tot: "sum_list (map correct_count reps) + sum_list (map incorrect_count reps)
               = int (length (results cr))"
    using oc oi count_split[of "results cr"] count_filter[of "results cr"] by simp
  have d1: "(of_int (sum_list (map correct_count reps) + sum_list (map incorrect_count reps)) :: rat) \<noteq> 0"
    using tot assms by simp
  have d2: "(of_nat (length reps) :: rat) \<noteq> 0"
    using rn by simp
  show ?thesis
    unfolding aggregation_pass_eq[of cr l0] c
    using assms d1 d2 rn ne m1 oc tot by (simp add: py_truediv_def)
qed

lemma generate_report_nonempty:
  assumes "results cr \<noteq> []"
  obtains l where "aggregation_pass cr unassigned = Inr l"
    and "generate_report cr = Inr (build_report cr l)"
proof -
  from aggregation_pass_nonempty[OF assms, of unassigned]
  obtain l where l: "aggregation_pass cr unassigned = Inr l" by blast
  have "aggregation_pass cr l = Inr l"
    using l aggregation_pass_independent[of cr l unassigned] by simp
  with l have "generate_report cr = Inr (build_report cr l)"
    by (simp add: generate_report_def)
  with l show thesis by (rule that)
qed

lemma two_model_groups:
  "group_results [] (results two_model_result)
     = [(''A'', [sample_result ''A'' True 1, sample_result ''A'' True 2,
                 sample_result ''A'' True 3, sample_result ''A'' False 4]),
        (''B'', [sample_result ''B'' True 1, sample_result ''B'' True 2])]"
  by (simp add: two_model_result_def group_result_def sample_result_def)

lemma two_model_reports:
  "create_model_reports (group_results [] (results two_model_result)) []
     = Inr [\<lparr> report_model = ''A'',
               report_results = [sample_result ''A'' True 1, sample_result ''A'' True 2,
                                 sample_result ''A'' True 3, sample_result ''A'' False 4],
               correct_count = 3, incorrect_count = 1, accuracy = 3 / 4,
               average_tokens_per_second = 10, average_total_duration_ms = 100,
               average_load_duration_ms = 5 \<rparr>,
            \<lparr> report_model = ''B'',
               report_results = [sample_result ''B'' True 1, sample_result ''B'' True 2],
               correct_count = 2, incorrect_count = 0, accuracy = 1,
               average_tokens_per_second = 10, average_total_duration_ms = 100,
               average_load_duration_ms = 5 \<rparr>]"
  unfolding two_model_groups
  by (simp add: model_report_def py_truediv_def sample_result_def sample_response_def Let_def)

lemma two_model_pass:
  "\<exists>l. aggregation_pass two_model_result l0 = Inr l
      \<and> map accuracy (model_reports l) = [3 / 4, 1] \<and> overall_acc l = 5 / 6"
  unfolding aggregation_pass_eq[of two_model_result l0] two_model_reports
  by (simp add: py_truediv_def)

text \<open>
  Claim C1, as stated, fails: with model A at three of four and model B at two of two,
  the per-model accuracies are 3/4 and 1, whose mean is 7/8, and the overall accuracy
  of the report is 5/6.
\<close>

theorem overall_accuracy_not_mean_of_models:
  "(case generate_report two_model_result of
      Inl e \<Rightarrow> False
    | Inr rep \<Rightarrow> map accuracy (models rep) = [3 / 4, 1] \<and> overall_accuracy rep = 5 / 6
                 \<and> overall_accuracy rep \<noteq> (3 / 4 + 1) / 2)"
proof -
  obtain l1 where l1: "aggregation_pass two_model_result unassigned = Inr l1"
    using two_model_pass[of unassigned] by blast
  obtain l2 where l2: "aggregation_pass two_model_result l1 = Inr l2"
    and a: "map accuracy (model_reports l2) = [3 / 4, 1]" and b: "overall_acc l2 = 5 / 6"
    using two_model_pass[of l1] by (elim exE conjE)
  show ?thesis
    by (simp add: generate_report_def l1 l2 build_report_def a b)
qed

text \<open>
  Claim C1, amended. For every complete result with at least one result (over one or
  more models), \<open>generate_report\<close> returns a report whose overall accuracy is the pooled
  ratio: the sum of the per-model correct counts, which is the number of correct
  results, divided by the sum of all per-model counts, which is the number of results.
  The three overall timing values are the means of the per-model means.
\<close>

theorem overall_accuracy_is_pooled:
  assumes "results cr \<noteq> []"
  shows "\<exists>rep. generate_report cr = Inr rep
           \<and> overall_correct_count rep = sum_list (map correct_count (models rep))
           \<and> overall_incorrect_count rep = sum_list (map incorrect_count (models rep))
           \<and> overall_correct_count rep = int (length (filter correct (results cr)))
           \<and> overall_correct_count rep + overall_incorrect_count rep = int (length (results cr))
           \<and> overall_accuracy rep
               = of_int (overall_correct_count rep)
                   / of_int (overall_correct_count rep + overall_incorrect_count rep)
           \<and> overall_average_tokens_per_second rep
               = sum_list (map average_tokens_per_second (models rep)) / of_nat (length (models rep))
           \<and> overall_average_total_duration_ms rep
               = sum_list (map average_total_duration_ms (models rep)) / of_nat (length (models rep))
           \<and> overall_average_load_duration_ms rep
               = sum_list (map average_load_duration_ms (models rep)) / of_nat (length (models rep))"
proof -
  obtain l where l: "aggregation_pass cr unassigned = Inr l"
    and g: "generate_report cr = Inr (build_report cr l)"
    using assms by (rule generate_report_nonempty)
  from aggregation_pass_nonempty[OF assms, of unassigned] l
  show ?thesis unfolding g by (simp add: build_report_def)
qed

theorem overall_accuracy_is_pooled_witness:
  "\<exists>rep. generate_report two_model_result = Inr rep
     \<and> overall_correct_count rep = 5
     \<and> overall_correct_count rep + overall_incorrect_count rep = 6
     \<and> overall_accuracy rep = 5 / 6"
proof -
  have n: "results two_model_result \<noteq> []" by (simp add: two_model_result_def)
  have c: "int (length (filter correct (results two_model_result))) = 5"
    "int (length (results two_model_result)) = 6"
    by (simp_all add: two_model_result_def sample_result_def)
  from overall_accuracy_is_pooled[OF n] obtain rep where
    g: "generate_report two_model_result = Inr rep"
    and oc: "overall_correct_count rep = int (length (filter correct (results two_model_result)))"
    and tot: "overall_correct_count rep + overall_incorrect_count rep = int (length (results two_model_result))"
    and acc: "overall_accuracy rep
               = of_int (overall_correct_count rep)
                   / of_int (overall_correct_count rep + overall_incorrect_count rep)"
    by (elim exE conjE)
  have "overall_accuracy rep = 5 / 6"
    unfolding acc tot unfolding oc c by simp
  with g oc tot c show ?thesis by simp
qed

text \<open>
  Claim C3, as stated, fails: no ratio of \<open>generate_report\<close> is guarded, and with zero
  results the division for the overall accuracy raises \<^verbatim>\<open>ZeroDivisionError\<close>.
\<close>

theorem empty_results_raise_division_error:
  "generate_report no_results = Inl (ZeroDivisionError ''division by zero'')"
  by (simp add: generate_report_def aggregation_pass_def no_results_def unassigned_def
        py_truediv_def Let_def)

text \<open>
  Claim C3, amended. \<open>generate_report\<close> applied to a complete result with at least one
  result raises no division error and returns a report: the grouping makes a group
  only for a model that has a result, so there is at least one model report, every
  model report has at least one result, and the overall counts add up to the number of
  results; every divisor is positive.
\<close>

theorem no_division_error_with_results:
  assumes "results cr \<noteq> []"
  shows "\<exists>rep. generate_report cr = Inr rep
           \<and> models rep \<noteq> []
           \<and> list_all (\<lambda>m. report_results m \<noteq> []) (models rep)
           \<and> overall_correct_count rep + overall_incorrect_count rep = int (length (results cr))"
proof -
  obtain l where l: "aggregation_pass cr unassigned = Inr l"
    and g: "generate_report cr = Inr (build_report cr l)"
    using assms by (rule generate_report_nonempty)
  from aggregation_pass_nonempty[OF assms, of unassigned] l
  have a: "model_reports l \<noteq> []"
    and b: "list_all (\<lambda>g. snd g \<noteq> []) (model_results l)"
    and c: "map report_results (model_reports l) = map snd (model_results l)"
    and d: "overall_correct l + overall_incorrect l = int (length (results cr))"
    by simp_all
  have "list_all (\<lambda>rs. rs \<noteq> []) (map snd (model_results l))"
    using b by (simp add: list_all_iff)
  then have "list_all (\<lambda>rs. rs \<noteq> []) (map report_results (model_reports l))"
    unfolding c .
  then have "list_all (\<lambda>m. report_results m \<noteq> []) (model_reports l)"
    by (simp add: list_all_iff)
  with a d show ?thesis unfolding g by (simp add: build_report_def)
qed

theorem no_division_error_with_results_witness:
  "\<exists>rep. generate_report \<lparr>benchmark_file = one_row_file, results = [sample_result ''A'' False 1]\<rparr>
            = Inr rep
     \<and> length (models rep) = 1
     \<and> overall_correct_count rep + overall_incorrect_count rep = 1"
proof -
  let ?cr = "\<lparr>benchmark_file = one_row_file, results = [sample_result ''A'' False 1]\<rparr>"
  have n: "results ?cr \<noteq> []" by simp
  have m: "\<And>rep. generate_report ?cr = Inr rep \<Longrightarrow> length (models rep) = 1"
    by (auto simp add: generate_report_def aggregation_pass_eq group_result_def sample_result_def
        model_report_def py_truediv_def sample_response_def build_report_def Let_def
        split: sum.splits)
  from no_division_error_with_results[OF n] m
  show ?thesis by auto
qed

text \<open>
  Claim C8. The second aggregation pass assigns every local variable it reads before it
  reads it, so a pass gives the same outcome from any state of the local variables, the
  one left by the first pass included. The report of \<open>generate_report\<close>, or the
  exception it raises, is that of the generator with a single pass.
\<close>

theorem single_pass_equivalence:
  "generate_report cr = generate_report_single_pass cr
   \<and> aggregation_pass cr l = aggregation_pass cr unassigned"
proof -
  have i: "aggregation_pass cr l' = aggregation_pass cr unassigned" for l'
    by (rule aggregation_pass_independent)
  have "generate_report cr = generate_report_single_pass cr"
  proof (cases "aggregation_pass cr unassigned")
    case (Inl e)
    then show ?thesis
      by (simp add: generate_report_def generate_report_single_pass_def)
  next
    case (Inr l1)
    then show ?thesis
      by (simp add: generate_report_def generate_report_single_pass_def i[of l1])
  qed
  with i show ?thesis by simp
qed

section \<open>Properties of the prompt templater\<close>

lemma substitute_variables_foldl:
  "substitute_variables prompt items
     = foldl (\<lambda>prompt kv. py_replace prompt (marker (fst kv)) (snd kv)) prompt items"
  by (induction prompt items rule: substitute_variables.induct) simp_all

text \<open>
  Claim C10. The substitutions are applied one key after the other to the whole
  intermediate string. For the template \<^verbatim>\<open>{{a}}\<close> and the mapping of \<^verbatim>\<open>a\<close> to
  \<^verbatim>\<open>{{b}}\<close> and of \<^verbatim>\<open>b\<close> to \<^verbatim>\<open>X\<close>, the value of the first key contains the marker of
  the second, which is replaced in turn: the rendered prompt is \<^verbatim>\<open>X\<close>, and simultaneous
  substitution in a single pass gives \<^verbatim>\<open>{{b}}\<close>.
\<close>

theorem sequential_substitution_differs:
  "render_prompt template (Some items)
     = foldl (\<lambda>prompt kv. py_replace prompt (marker (fst kv)) (snd kv)) template items
   \<and> render_prompt ''{{a}}'' (Some [(''a'', ''{{b}}''), (''b'', ''X'')]) = ''X''
   \<and> simultaneous_substitute [(''a'', ''{{b}}''), (''b'', ''X'')] ''{{a}}'' = ''{{b}}''
   \<and> contains (marker ''b'') ''{{b}}''
   \<and> render_prompt ''{{a}}'' (Some [(''a'', ''{{b}}''), (''b'', ''X'')])
       \<noteq> simultaneous_substitute [(''a'', ''{{b}}''), (''b'', ''X'')] ''{{a}}''"
proof -
  have seq: "render_prompt template (Some items)
     = foldl (\<lambda>prompt kv. py_replace prompt (marker (fst kv)) (snd kv)) template items"
    by (cases items) (simp_all add: render_prompt_def substitute_variables_foldl)
  have r: "render_prompt ''{{a}}'' (Some [(''a'', ''{{b}}''), (''b'', ''X'')]) = ''X''"
    by (simp add: render_prompt_def py_replace_def marker_def starts_with_def)
  have m: "simultaneous_substitute [(''a'', ''{{b}}''), (''b'', ''X'')] ''{{a}}'' = ''{{b}}''"
    by (simp add: marker_def starts_with_def)
  have c: "contains (marker ''b'') ''{{b}}''"
    by (simp add: marker_def starts_with_def)
  from seq r m c show ?thesis by simp
qed

end
